theory Spec2Isabelle
  imports Main
begin

section \<open>JavaScript values\<close>

text \<open>
  The identities the helper compares (\<open>initiator_id\<close>, \<open>opponent_id\<close>, \<open>callerId\<close>,
  \<open>winner\<close>) are numbers or strings coming from the database driver, from Telegram and
  from callback data, or are absent. The source compares them through \<open>String(...)\<close>,
  so the model keeps the four shapes apart and writes the conversion out.
\<close>

datatype jsval = Undefined | Null | Num int | Str string

definition digit_char :: "nat \<Rightarrow> char" where
  "digit_char d = ''0123456789'' ! d"

fun digits :: "nat \<Rightarrow> string" where
  "digits n = (if n < 10 then [digit_char n] else digits (n div 10) @ [digit_char (n mod 10)])"

declare digits.simps [simp del]

text \<open>\<open>String(v)\<close>.\<close>

fun js_String :: "jsval \<Rightarrow> string" where
  "js_String Undefined = ''undefined''"
| "js_String Null = ''null''"
| "js_String (Num i) = (if i < 0 then CHR ''-'' # digits (nat (- i)) else digits (nat i))"
| "js_String (Str s) = s"

text \<open>Truthiness, as \<open>if (v)\<close> and \<open>v || w\<close> test it.\<close>

fun truthy :: "jsval \<Rightarrow> bool" where
  "truthy Undefined = False"
| "truthy Null = False"
| "truthy (Num i) = (i \<noteq> 0)"
| "truthy (Str s) = (s \<noteq> [])"

section \<open>Data model\<close>

text \<open>The values of the \<open>status\<close> column that the helper reads or writes.\<close>

datatype status =
    pending_pickup | in_progress
  | completed_timeout | completed_cancelled
  | completed_error | completed_error_ui
  | completed_p1_win | completed_p2_win | completed_bot_win

text \<open>
  \<open>game_state_json\<close>: the properties the helper reads or writes; an absent property is
  \<open>Undefined\<close>. The column is taken to hold an object (the helper dereferences it
  without a check in every handler).
\<close>

record gameState =
  helperMessageId :: jsval
  initiatorName :: jsval
  opponentName :: jsval
  callerId :: jsval
  callerName :: jsval
  winner :: jsval
  gs_status :: jsval
  gs_error :: jsval

text \<open>
  A row of \<open>coinflip_sessions\<close> as the driver returns it (\<open>RETURNING *\<close>), which is also
  the in-memory session object: the helper adds the property \<open>timeoutId\<close> to it.
  \<open>session_id\<close> is a number (the source documents it so), and \<open>bet_amount_lamports\<close>
  is only displayed.
\<close>

record session =
  session_id :: int
  main_bot_game_id :: jsval
  chat_id :: jsval
  initiator_id :: jsval
  opponent_id :: jsval
  status :: status
  helper_bot_id :: jsval
  game_state_json :: gameState
  timeoutId :: "nat option"

text \<open>The second argument of \<open>handleGameTimeout\<close>: 'offer', 'player_turn', 'caller_turn'.\<close>

datatype timeout_context = Offer | Player_turn | Caller_turn

text \<open>What the helper shows or logs; message texts are reduced to their kind.\<close>

datatype message =
    UnifiedOfferMsg | DirectChallengeMsg
  | PvBPromptMsg | PvPPromptMsg jsval
  | FrameMsg nat | RevealMsg string jsval
  | OfferExpiredMsg | PlayerTimedOutMsg | CallerTimedOutMsg
  | OfferWithdrawnMsg | DuelDeclinedMsg

datatype emitted =
    AnswerCallbackQuery "string option" bool
  | SendMessage message
  | EditMessageText message
  | DeleteMessage
  | ConsoleLog
  | ConsoleError

datatype error = PresenterError | StoreError | TypeError | ReferenceError

text \<open>
  The process state. Session objects live in \<open>heap\<close> (a reference is an index; objects are
  never freed), \<open>activeHelperGames\<close> is the \<open>Map\<close> from session id to object,
  \<open>coinflip_sessions\<close> is the database table, \<open>timers\<close> holds the pending
  \<open>setTimeout\<close> callbacks by handle, \<open>persisted\<close> lists the final-outcome updates the
  database has executed, in order, and \<open>outs\<close> is the trace of presenter calls and logs.
\<close>

record state =
  heap :: "session list"
  activeHelperGames :: "int \<rightharpoonup> nat"
  coinflip_sessions :: "session list"
  timers :: "nat \<rightharpoonup> (int \<times> timeout_context)"
  next_timer :: nat
  persisted :: "(int \<times> status \<times> gameState) list"
  outs :: "emitted list"

section \<open>Primitives\<close>

definition emit :: "emitted \<Rightarrow> state \<Rightarrow> state" where
  "emit x st = st\<lparr>outs := outs st @ [x]\<rparr>"

text \<open>\<open>if (session.timeoutId) clearTimeout(session.timeoutId)\<close>\<close>

definition clearSessionTimeout :: "nat \<Rightarrow> state \<Rightarrow> state" where
  "clearSessionTimeout r st =
     (case timeoutId (heap st ! r) of
        None \<Rightarrow> st
      | Some h \<Rightarrow> st\<lparr>timers := (timers st)(h := None)\<rparr>)"

text \<open>\<open>session.timeoutId = setTimeout(() => handleGameTimeout(session.session_id, ctx), ms)\<close>\<close>

definition armSessionTimeout :: "nat \<Rightarrow> timeout_context \<Rightarrow> state \<Rightarrow> state" where
  "armSessionTimeout r ctx st =
     (let h = next_timer st; s = heap st ! r in
      st\<lparr>timers := (timers st)(h \<mapsto> (session_id s, ctx)),
         next_timer := Suc h,
         heap := (heap st)[r := s\<lparr>timeoutId := Some h\<rparr>]\<rparr>)"

text \<open>Mutation of the game state of the session object at \<open>r\<close>.\<close>

definition update_gameState :: "nat \<Rightarrow> (gameState \<Rightarrow> gameState) \<Rightarrow> state \<Rightarrow> state" where
  "update_gameState r f st =
     (let s = heap st ! r in
      st\<lparr>heap := (heap st)[r := s\<lparr>game_state_json := f (game_state_json s)\<rparr>]\<rparr>)"

text \<open>An awaited presenter call: it resolves, or it rejects and the caller throws.\<close>

definition answerCallbackQuery :: "bool \<Rightarrow> string option \<Rightarrow> bool \<Rightarrow> state \<Rightarrow> error option \<times> state" where
  "answerCallbackQuery ok txt alert st =
     (if ok then (None, emit (AnswerCallbackQuery txt alert) st) else (Some PresenterError, st))"

definition editMessageText :: "bool \<Rightarrow> message \<Rightarrow> state \<Rightarrow> error option \<times> state" where
  "editMessageText ok m st =
     (if ok then (None, emit (EditMessageText m) st) else (Some PresenterError, st))"

text \<open>Sequencing: a throw skips the rest.\<close>

definition andThen :: "error option \<times> state \<Rightarrow> (state \<Rightarrow> error option \<times> state) \<Rightarrow> error option \<times> state" where
  "andThen r k = (case r of (Some e, st) \<Rightarrow> (Some e, st) | (None, st) \<Rightarrow> k st)"

section \<open>Database interaction\<close>

text \<open>
  \<open>UPDATE coinflip_sessions SET status = $1, game_state_json = $2, updated_at = NOW()
  WHERE session_id = $3\<close>
\<close>

definition update_final :: "int \<Rightarrow> status \<Rightarrow> gameState \<Rightarrow> session list \<Rightarrow> session list" where
  "update_final sessionId finalStatus finalGameState tbl =
     map (\<lambda>row. if session_id row = sessionId
                 then row\<lparr>status := finalStatus, game_state_json := finalGameState\<rparr>
                 else row) tbl"

text \<open>
  \<open>finalizeAndRecordOutcome\<close>: the update and, after it, the removal from the Map are
  both inside the \<open>try\<close>; when the query rejects, the \<open>catch\<close> only logs.
\<close>

definition finalizeAndRecordOutcome :: "bool \<Rightarrow> int \<Rightarrow> status \<Rightarrow> gameState \<Rightarrow> state \<Rightarrow> state" where
  "finalizeAndRecordOutcome query_ok sessionId finalStatus finalGameState st =
     (let st1 = emit ConsoleLog st in
      if query_ok then
        st1\<lparr>coinflip_sessions := update_final sessionId finalStatus finalGameState (coinflip_sessions st1),
            persisted := persisted st1 @ [(sessionId, finalStatus, finalGameState)],
            activeHelperGames := (activeHelperGames st1)(sessionId := None)\<rparr>
      else emit ConsoleError st1)"

section \<open>Outcomes of the awaited calls\<close>

text \<open>One animation frame: shown, rejected as "message is not modified", or rejected otherwise.\<close>

datatype frame_result = FrameShown | FrameNotModified | FrameFailed

text \<open>
  What the outside world answers during one handler run, one field per call site:
  the message id \<open>safeSendMessage\<close> returns (\<open>None\<close> for its \<open>null\<close>), whether each
  awaited query or presenter call resolves, and the two comparisons
  \<open>Math.random() < 0.5\<close>. \<open>BOT_ID\<close> is the configured bot id.
\<close>

record io =
  BOT_ID :: string
  connect_ok :: bool
  begin_ok :: bool
  claim_query_ok :: bool
  rollback_ok :: bool
  commit_ok :: bool
  catch_rollback_ok :: bool
  sendMessage_result :: "int option"
  gs_query_ok :: bool
  finalize_query_ok :: bool
  answer_ok :: bool
  edit_ok :: bool
  delete_ok :: bool
  frame_edits :: "frame_result list"
  reveal_edit_ok :: bool
  random_caller :: bool
  random_flip :: bool

section \<open>Core game flow\<close>

definition COINFLIP_CHOICE_HEADS :: string where
  "COINFLIP_CHOICE_HEADS = ''heads''"

definition COINFLIP_CHOICE_TAILS :: string where
  "COINFLIP_CHOICE_TAILS = ''tails''"

definition COIN_FLIP_ANIMATION_INTERVAL_MS :: nat where
  "COIN_FLIP_ANIMATION_INTERVAL_MS = 250"

definition COIN_FLIP_ANIMATION_DURATION_MS :: nat where
  "COIN_FLIP_ANIMATION_DURATION_MS = 2000"

definition COIN_FLIP_ANIMATION_STEPS :: nat where
  "COIN_FLIP_ANIMATION_STEPS = COIN_FLIP_ANIMATION_DURATION_MS div COIN_FLIP_ANIMATION_INTERVAL_MS"

text \<open>The payload \<open>{error: ...}\<close> of the error finalizations.\<close>

definition error_state :: "string \<Rightarrow> gameState" where
  "error_state msg =
     \<lparr>helperMessageId = Undefined, initiatorName = Undefined, opponentName = Undefined,
      callerId = Undefined, callerName = Undefined, winner = Undefined,
      gs_status = Undefined, gs_error = Str msg\<rparr>"

text \<open>
  \<open>runUnifiedOffer\<close> and \<open>runDirectChallenge\<close> differ in the message and the delay only.
  After a successful send: message id stored, timer armed, session put in the Map, then
  the awaited update of \<open>game_state_json\<close>, whose rejection propagates to the caller.
\<close>

definition update_game_state_json :: "int \<Rightarrow> gameState \<Rightarrow> session list \<Rightarrow> session list" where
  "update_game_state_json sessionId g tbl =
     map (\<lambda>row. if session_id row = sessionId then row\<lparr>game_state_json := g\<rparr> else row) tbl"

definition runOffer :: "io \<Rightarrow> message \<Rightarrow> string \<Rightarrow> nat \<Rightarrow> state \<Rightarrow> error option \<times> state" where
  "runOffer io m failure r st =
     (case sendMessage_result io of
        Some message_id \<Rightarrow>
          (let st1 = emit (SendMessage m) st;
               st2 = update_gameState r (\<lambda>g. g\<lparr>helperMessageId := Num message_id\<rparr>) st1;
               st3 = armSessionTimeout r Offer st2;
               session = heap st3 ! r;
               st4 = st3\<lparr>activeHelperGames := (activeHelperGames st3)(session_id session \<mapsto> r)\<rparr>
           in if gs_query_ok io
              then (None, st4\<lparr>coinflip_sessions :=
                      update_game_state_json (session_id session) (game_state_json session)
                        (coinflip_sessions st4)\<rparr>)
              else (Some StoreError, st4))
      | None \<Rightarrow>
          (let st1 = emit ConsoleError st in
           (None, finalizeAndRecordOutcome (finalize_query_ok io) (session_id (heap st1 ! r))
                    completed_error_ui (error_state failure) st1)))"

definition runUnifiedOffer :: "io \<Rightarrow> nat \<Rightarrow> state \<Rightarrow> error option \<times> state" where
  "runUnifiedOffer io r st = runOffer io UnifiedOfferMsg ''Failed to send offer message'' r st"

definition runDirectChallenge :: "io \<Rightarrow> nat \<Rightarrow> state \<Rightarrow> error option \<times> state" where
  "runDirectChallenge io r st =
     runOffer io DirectChallengeMsg ''Failed to send direct challenge message'' r st"

definition runCoinflipPvB :: "io \<Rightarrow> nat \<Rightarrow> state \<Rightarrow> error option \<times> state" where
  "runCoinflipPvB io r st =
     (let st1 = update_gameState r (\<lambda>g. g\<lparr>gs_status := Str ''pvb_awaiting_player_choice''\<rparr>) st;
          st2 = st1\<lparr>activeHelperGames := (activeHelperGames st1)(session_id (heap st1 ! r) \<mapsto> r)\<rparr>
      in andThen (editMessageText (edit_ok io) PvBPromptMsg st2)
           (\<lambda>st3. (None, armSessionTimeout r Player_turn st3)))"

definition runCoinflipPvP :: "io \<Rightarrow> nat \<Rightarrow> state \<Rightarrow> error option \<times> state" where
  "runCoinflipPvP io r st =
     (let session = heap st ! r;
          p1IsCaller = random_caller io;
          caller_id = (if p1IsCaller then initiator_id session else opponent_id session);
          st1 = update_gameState r (\<lambda>g. g\<lparr>callerId := caller_id\<rparr>) st
      in andThen (editMessageText (edit_ok io) (PvPPromptMsg caller_id) st1)
           (\<lambda>st2. (None, armSessionTimeout r Caller_turn st2)))"

text \<open>The animation loop: a frame that fails otherwise than "not modified" ends it.\<close>

function animation_loop :: "nat \<Rightarrow> frame_result list \<Rightarrow> state \<Rightarrow> state" where
  "animation_loop i rs st =
     (if i < COIN_FLIP_ANIMATION_STEPS then
        (case (case rs of [] \<Rightarrow> FrameShown | x # _ \<Rightarrow> x) of
           FrameShown \<Rightarrow> animation_loop (Suc i) (tl rs) (emit (EditMessageText (FrameMsg (i mod 8))) st)
         | FrameNotModified \<Rightarrow> animation_loop (Suc i) (tl rs) st
         | FrameFailed \<Rightarrow> st)
      else st)"
  by pat_completeness auto
termination
  by (relation "measure (\<lambda>(i, rs, st). COIN_FLIP_ANIMATION_STEPS - i)") auto

declare animation_loop.simps [simp del]

text \<open>
  The decision inside \<open>runCoinflipAnimationAndFinalize\<close> (and \<open>runCoinflipAnimation\<close> of
  the earlier draft, which has the same lines): the winner and the final status, from the
  call, the landed side and the session.
\<close>

definition actualFlipOutcome :: "bool \<Rightarrow> string" where
  "actualFlipOutcome below_half = (if below_half then COINFLIP_CHOICE_HEADS else COINFLIP_CHOICE_TAILS)"

definition decide :: "session \<Rightarrow> string \<Rightarrow> string \<Rightarrow> bool \<Rightarrow> jsval \<times> status" where
  "decide session playerChoice landed isPvP =
     (let gameState = game_state_json session;
          playerWins = (playerChoice = landed)
      in if isPvP then
           (let winnerId =
                  (if playerWins then callerId gameState
                   else if js_String (callerId gameState) = js_String (initiator_id session)
                        then opponent_id session else initiator_id session);
                finalStatus =
                  (if js_String winnerId = js_String (initiator_id session)
                   then completed_p1_win else completed_p2_win)
            in (winnerId, finalStatus))
         else
           (if playerWins then initiator_id session else Str ''bot'',
            if playerWins then completed_p1_win else completed_bot_win))"

text \<open>
  \<open>playerChoice\<close> is \<open>None\<close> when the callback data has no such field: \<open>charAt\<close> of
  \<open>undefined\<close> throws, after the timer has been cleared.
\<close>

definition runCoinflipAnimationAndFinalize ::
  "io \<Rightarrow> nat \<Rightarrow> string option \<Rightarrow> bool \<Rightarrow> state \<Rightarrow> error option \<times> state" where
  "runCoinflipAnimationAndFinalize io r playerChoice isPvP st =
     (let st1 = clearSessionTimeout r st in
      case playerChoice of
        None \<Rightarrow> (Some TypeError, st1)
      | Some choice \<Rightarrow>
          (let st2 = animation_loop 0 (frame_edits io) st1;
               landed = actualFlipOutcome (random_flip io);
               (winnerId, finalStatus) = decide (heap st2 ! r) choice landed isPvP;
               st3 = update_gameState r (\<lambda>g. g\<lparr>winner := winnerId\<rparr>) st2
           in andThen (editMessageText (reveal_edit_ok io) (RevealMsg landed winnerId) st3)
                (\<lambda>st4. (None, finalizeAndRecordOutcome (finalize_query_ok io)
                                 (session_id (heap st4 ! r)) finalStatus
                                 (game_state_json (heap st4 ! r)) st4))))"

section \<open>Timeout handler\<close>

definition handleGameTimeout :: "io \<Rightarrow> int \<Rightarrow> timeout_context \<Rightarrow> state \<Rightarrow> error option \<times> state" where
  "handleGameTimeout io sessionId ctx st =
     (case activeHelperGames st sessionId of
        None \<Rightarrow> (None, st)
      | Some r \<Rightarrow>
          (let st1 = clearSessionTimeout r st;
               session = heap st1 ! r;
               (finalMessage, finalStatus) =
                 (case ctx of
                    Offer \<Rightarrow> (OfferExpiredMsg, completed_timeout)
                  | Player_turn \<Rightarrow> (PlayerTimedOutMsg, completed_bot_win)
                  | Caller_turn \<Rightarrow>
                      (CallerTimedOutMsg,
                       if js_String (callerId (game_state_json session)) = js_String (initiator_id session)
                       then completed_p2_win else completed_p1_win))
           in andThen (editMessageText (edit_ok io) finalMessage st1)
                (\<lambda>st2. (None, finalizeAndRecordOutcome (finalize_query_ok io) sessionId finalStatus
                                 (game_state_json (heap st2 ! r)) st2))))"

text \<open>A pending timer fires: it leaves the timer table and its callback runs.\<close>

definition timer_fires :: "io \<Rightarrow> nat \<Rightarrow> state \<Rightarrow> error option \<times> state" where
  "timer_fires io h st =
     (case timers st h of
        None \<Rightarrow> (None, st)
      | Some (sessionId, ctx) \<Rightarrow> handleGameTimeout io sessionId ctx (st\<lparr>timers := (timers st)(h := None)\<rparr>))"

section \<open>Pickup of a new session\<close>

text \<open>
  \<open>UPDATE coinflip_sessions SET status = 'in_progress', helper_bot_id = $1
  WHERE main_bot_game_id = $2 AND status = 'pending_pickup' RETURNING *\<close>.
  The parameter is compared with the column by its text.
\<close>

definition claimable :: "jsval \<Rightarrow> session \<Rightarrow> bool" where
  "claimable mainBotGameId row =
     (js_String (main_bot_game_id row) = js_String mainBotGameId \<and> status row = pending_pickup)"

definition claim :: "string \<Rightarrow> session \<Rightarrow> session" where
  "claim botId row = row\<lparr>status := in_progress, helper_bot_id := Str botId\<rparr>"

definition claim_update :: "string \<Rightarrow> jsval \<Rightarrow> session list \<Rightarrow> session list" where
  "claim_update botId mainBotGameId tbl =
     map (\<lambda>row. if claimable mainBotGameId row then claim botId row else row) tbl"

definition claim_returning :: "string \<Rightarrow> jsval \<Rightarrow> session list \<Rightarrow> session list" where
  "claim_returning botId mainBotGameId tbl = map (claim botId) (filter (claimable mainBotGameId) tbl)"

text \<open>
  \<open>activeHelperGames.get(mainBotGameId)\<close> in the \<open>catch\<close> block: the Map's keys are the
  numeric session ids, so only a number can hit one.
\<close>

definition get_by_game_id :: "state \<Rightarrow> jsval \<Rightarrow> nat option" where
  "get_by_game_id st mainBotGameId =
     (case mainBotGameId of Num n \<Rightarrow> activeHelperGames st n | _ \<Rightarrow> None)"

text \<open>
  The \<open>catch\<close> block of \<open>handleNewGameSession\<close>: rollback when a client exists (its
  rejection leaves the handler), the log, and the finalization of whatever session the
  Map holds under the external game id. The error's message, which goes into the persisted
  payload, is represented by the name of the step that failed.
\<close>

definition handleNewGameSession_catch :: "io \<Rightarrow> bool \<Rightarrow> jsval \<Rightarrow> string \<Rightarrow> state \<Rightarrow> error option \<times> state" where
  "handleNewGameSession_catch io client mainBotGameId msg st =
     (if client \<and> \<not> catch_rollback_ok io then (Some StoreError, st)
      else
        (let st1 = emit ConsoleError st in
         case get_by_game_id st1 mainBotGameId of
           None \<Rightarrow> (None, st1)
         | Some r \<Rightarrow>
             (None, finalizeAndRecordOutcome (finalize_query_ok io) (session_id (heap st1 ! r))
                      completed_error (error_state msg) st1)))"

definition handleNewGameSession :: "io \<Rightarrow> jsval \<Rightarrow> state \<Rightarrow> error option \<times> state" where
  "handleNewGameSession io mainBotGameId st =
     (if \<not> connect_ok io then handleNewGameSession_catch io False mainBotGameId ''connect'' st
      else if \<not> begin_ok io then handleNewGameSession_catch io True mainBotGameId ''begin'' st
      else if \<not> claim_query_ok io then handleNewGameSession_catch io True mainBotGameId ''update'' st
      else
        (case claim_returning (BOT_ID io) mainBotGameId (coinflip_sessions st) of
           [] \<Rightarrow>
             (if rollback_ok io then (None, st)
              else handleNewGameSession_catch io True mainBotGameId ''rollback'' st)
         | session # _ \<Rightarrow>
             (if \<not> commit_ok io then handleNewGameSession_catch io True mainBotGameId ''commit'' st
              else
                (let r = length (heap st);
                     st1 = st\<lparr>coinflip_sessions :=
                                claim_update (BOT_ID io) mainBotGameId (coinflip_sessions st),
                              heap := heap st @ [session],
                              activeHelperGames := (activeHelperGames st)(session_id session \<mapsto> r)\<rparr>
                 in case (if truthy (opponent_id session)
                          then runDirectChallenge io r st1 else runUnifiedOffer io r st1) of
                      (None, st2) \<Rightarrow> (None, st2)
                    | (Some e, st2) \<Rightarrow>
                        handleNewGameSession_catch io True mainBotGameId ''setup'' st2))))"

text \<open>The state the pickup reaches once the claim is committed and the session object is in the Map.\<close>

definition pickup_setup :: "io \<Rightarrow> session \<Rightarrow> jsval \<Rightarrow> state \<Rightarrow> state" where
  "pickup_setup io session mainBotGameId st =
     st\<lparr>coinflip_sessions := claim_update (BOT_ID io) mainBotGameId (coinflip_sessions st),
        heap := heap st @ [session],
        activeHelperGames := (activeHelperGames st)(session_id session \<mapsto> length (heap st))\<rparr>"

text \<open>Every statement of the pickup transaction resolves.\<close>

definition database_ok :: "io \<Rightarrow> bool" where
  "database_ok io = (connect_ok io \<and> begin_ok io \<and> claim_query_ok io \<and> rollback_ok io \<and> commit_ok io)"

section \<open>Callback queries\<close>

text \<open>\<open>data.split(':')\<close>: never empty; the empty string splits into one empty field.\<close>

fun split_colon :: "string \<Rightarrow> string list" where
  "split_colon [] = [[]]"
| "split_colon (c # cs) =
     (if c = CHR '':'' then [] # split_colon cs
      else (case split_colon cs of [] \<Rightarrow> [[c]] | w # ws \<Rightarrow> (c # w) # ws))"

text \<open>
  A string is modelled by its UTF-8 bytes. The white space that \<open>parseInt\<close> skips is
  ECMAScript's \<open>WhiteSpace\<close> and \<open>LineTerminator\<close>: U+0009 to U+000D, U+0020,
  U+00A0, U+1680, U+2000 to U+200A, U+2028, U+2029, U+202F, U+205F, U+3000 and U+FEFF,
  here each as its byte sequence.
\<close>

definition white_space :: "string list" where
  "white_space =
     [[CHR 0x09], [CHR 0x0A], [CHR 0x0B], [CHR 0x0C], [CHR 0x0D], [CHR 0x20],
      [CHR 0xC2, CHR 0xA0],
      [CHR 0xE1, CHR 0x9A, CHR 0x80],
      [CHR 0xE2, CHR 0x80, CHR 0x80], [CHR 0xE2, CHR 0x80, CHR 0x81],
      [CHR 0xE2, CHR 0x80, CHR 0x82], [CHR 0xE2, CHR 0x80, CHR 0x83],
      [CHR 0xE2, CHR 0x80, CHR 0x84], [CHR 0xE2, CHR 0x80, CHR 0x85],
      [CHR 0xE2, CHR 0x80, CHR 0x86], [CHR 0xE2, CHR 0x80, CHR 0x87],
      [CHR 0xE2, CHR 0x80, CHR 0x88], [CHR 0xE2, CHR 0x80, CHR 0x89],
      [CHR 0xE2, CHR 0x80, CHR 0x8A],
      [CHR 0xE2, CHR 0x80, CHR 0xA8], [CHR 0xE2, CHR 0x80, CHR 0xA9],
      [CHR 0xE2, CHR 0x80, CHR 0xAF],
      [CHR 0xE2, CHR 0x81, CHR 0x9F],
      [CHR 0xE3, CHR 0x80, CHR 0x80],
      [CHR 0xEF, CHR 0xBB, CHR 0xBF]]"

text \<open>The number of bytes of the white space character a string starts with; 0 when it starts with none.\<close>

definition white_space_at :: "string \<Rightarrow> nat" where
  "white_space_at s =
     (case find (\<lambda>w. take (length w) s = w) white_space of
        None \<Rightarrow> 0
      | Some w \<Rightarrow> length w)"

function skip_white_space :: "string \<Rightarrow> string" where
  "skip_white_space s =
     (if white_space_at s = 0 \<or> length s < white_space_at s then s
      else skip_white_space (drop (white_space_at s) s))"
  by pat_completeness auto
termination
  by (relation "measure length") auto

declare skip_white_space.simps [simp del]

definition is_digit :: "char \<Rightarrow> bool" where
  "is_digit c = (48 \<le> (of_char c :: nat) \<and> (of_char c :: nat) \<le> 57)"

definition digits_value :: "string \<Rightarrow> int" where
  "digits_value ds = foldl (\<lambda>a c. 10 * a + (int (of_char c) - 48)) 0 ds"

text \<open>
  The Number nearest to a non-negative integer: itself below \<open>2^53 = 9007199254740992\<close>;
  above, the 53 leading bits rounded to nearest, ties to even; \<open>None\<close> is \<open>Infinity\<close>.
\<close>

function bit_length :: "int \<Rightarrow> nat" where
  "bit_length n = (if n \<le> 0 then 0 else Suc (bit_length (n div 2)))"
  by pat_completeness auto
termination
  by (relation "measure nat") auto

declare bit_length.simps [simp del]

definition to_Number :: "int \<Rightarrow> int option" where
  "to_Number n =
     (if n < 9007199254740992 then Some n
      else
        (let e = bit_length n - 53;
             q = n div 2 ^ e;
             rest = n mod 2 ^ e;
             half = 2 ^ (e - 1);
             q' = (if half < rest \<or> (rest = half \<and> odd q) then q + 1 else q)
         in if 2 ^ 1024 \<le> q' * 2 ^ e then None else Some (q' * 2 ^ e)))"

text \<open>
  \<open>parseInt(s, 10)\<close>: leading white space, an optional sign, then the longest run of
  decimal digits, converted to a Number. \<open>None\<close> stands for \<open>NaN\<close> (no digit, or
  \<open>s\<close> undefined) and for an infinite result: neither is the key of a session.
\<close>

definition parseInt :: "string option \<Rightarrow> int option" where
  "parseInt s =
     (case s of
        None \<Rightarrow> None
      | Some str \<Rightarrow>
          (let t = skip_white_space str;
               (neg, u) = (case t of
                             [] \<Rightarrow> (False, [])
                           | c # cs \<Rightarrow> if c = CHR ''-'' then (True, cs)
                                      else if c = CHR ''+'' then (False, cs) else (False, t));
               ds = takeWhile is_digit u
           in if ds = [] then None
              else (case to_Number (digits_value ds) of
                      None \<Rightarrow> None
                    | Some m \<Rightarrow> Some (if neg then - m else m))))"

definition nth_opt :: "'a list \<Rightarrow> nat \<Rightarrow> 'a option" where
  "nth_opt xs i = (if i < length xs then Some (xs ! i) else None)"

text \<open>
  \<open>callbackQuery.from\<close>, which every callback query carries (so the "Mystery Player"
  branch of \<open>getPlayerDisplayReference\<close> for a missing user is never taken here).
\<close>

record user =
  user_id :: int
  username :: jsval
  first_name :: jsval

definition getPlayerDisplayReference :: "user \<Rightarrow> jsval" where
  "getPlayerDisplayReference u =
     (if truthy (username u) then Str (CHR ''@'' # js_String (username u))
      else if truthy (first_name u) then first_name u
      else (let shown = js_String (if user_id u \<noteq> 0 then Num (user_id u) else Undefined)
            in Str (''Player '' @ drop (length shown - 4) shown)))"

text \<open>The \<open>switch\<close> of the callback handler, after the lookup and the \<open>clearTimeout\<close>.\<close>

definition dispatch ::
  "io \<Rightarrow> string \<Rightarrow> int \<Rightarrow> nat \<Rightarrow> string list \<Rightarrow> user \<Rightarrow> state \<Rightarrow> error option \<times> state" where
  "dispatch io action sessionId r params sender st =
     (let clickerId = js_String (Num (user_id sender));
          session = heap st ! r
      in
      if action = ''cf_helper_cancel'' then
        (if clickerId = js_String (initiator_id session) then
           andThen (answerCallbackQuery (answer_ok io) (Some ''Offer withdrawn.'') False st)
             (\<lambda>st1. andThen (editMessageText (edit_ok io) OfferWithdrawnMsg st1)
                (\<lambda>st2. (None, finalizeAndRecordOutcome (finalize_query_ok io) sessionId
                                 completed_cancelled (game_state_json (heap st2 ! r)) st2)))
         else answerCallbackQuery (answer_ok io) (Some ''Only the initiator can cancel.'') True st)
      else if action = ''cf_helper_accept_bot'' then
        (if clickerId = js_String (initiator_id session) then
           andThen (answerCallbackQuery (answer_ok io) None False st) (runCoinflipPvB io r)
         else answerCallbackQuery (answer_ok io) (Some ''Only the initiator can play vs the Bot.'') True st)
      else if action = ''cf_helper_accept_pvp'' then
        (if clickerId \<noteq> js_String (initiator_id session) then
           (let st1 = st\<lparr>heap := (heap st)[r := session\<lparr>opponent_id := Str clickerId\<rparr>]\<rparr>;
                st2 = update_gameState r (\<lambda>g. g\<lparr>opponentName := getPlayerDisplayReference sender\<rparr>) st1
            in andThen (answerCallbackQuery (answer_ok io) None False st2) (runCoinflipPvP io r))
         else answerCallbackQuery (answer_ok io) (Some ''You can't accept your own challenge.'') True st)
      else if action = ''cf_helper_accept_direct'' then
        (if clickerId = js_String (opponent_id session) then
           andThen (answerCallbackQuery (answer_ok io) None False st) (runCoinflipPvP io r)
         else answerCallbackQuery (answer_ok io) (Some ''This challenge is not for you.'') True st)
      else if action = ''cf_helper_decline_direct'' then
        (if clickerId = js_String (opponent_id session) then
           andThen (answerCallbackQuery (answer_ok io) None False st)
             (\<lambda>st1. andThen (editMessageText (edit_ok io) DuelDeclinedMsg st1)
                (\<lambda>st2. (None, finalizeAndRecordOutcome (finalize_query_ok io) sessionId
                                 completed_cancelled (game_state_json (heap st2 ! r)) st2)))
         else answerCallbackQuery (answer_ok io) (Some ''This challenge is not for you.'') True st)
      else if action = ''cf_helper_pvb_choice'' then
        (if clickerId = js_String (initiator_id session) then
           andThen (answerCallbackQuery (answer_ok io) None False st)
             (runCoinflipAnimationAndFinalize io r (nth_opt params 0) False)
         else (None, st))
      else if action = ''cf_helper_pvp_choice'' then
        (let callerId = (case nth_opt params 0 of None \<Rightarrow> Undefined | Some c \<Rightarrow> Str c);
             choice = nth_opt params 1
         in if clickerId = js_String callerId then
              andThen (answerCallbackQuery (answer_ok io) None False st)
                (\<lambda>st1. runCoinflipAnimationAndFinalize io r choice True
                          (update_gameState r (\<lambda>g. g\<lparr>callerName := getPlayerDisplayReference sender\<rparr>) st1))
            else answerCallbackQuery (answer_ok io) (Some ''It's not your turn to call.'') True st)
      else (None, st))"

text \<open>
  The handler: \<open>NaN\<close> (\<open>None\<close>) is the key of no session, so it takes the same branch as
  an absent key.
\<close>

definition callback_query :: "io \<Rightarrow> string \<Rightarrow> user \<Rightarrow> state \<Rightarrow> error option \<times> state" where
  "callback_query io data sender st =
     (let parts = split_colon data;
          action = (case parts of [] \<Rightarrow> [] | a # _ \<Rightarrow> a);
          sessionIdStr = nth_opt parts 1;
          params = drop 2 parts;
          sessionId = parseInt sessionIdStr
      in case sessionId of
           None \<Rightarrow> answerCallbackQuery (answer_ok io) (Some ''This game is no longer active.'') True st
         | Some k \<Rightarrow>
             (case activeHelperGames st k of
                None \<Rightarrow>
                  answerCallbackQuery (answer_ok io) (Some ''This game is no longer active.'') True st
              | Some r \<Rightarrow> dispatch io action k r params sender (clearSessionTimeout r st)))"

section \<open>Reading a callback\<close>

text \<open>
  What the first lines of the handler extract from the callback data: the action, and the
  session object found under the parsed second field, if any.
\<close>

definition action_of :: "string \<Rightarrow> string" where
  "action_of data = (case split_colon data of [] \<Rightarrow> [] | a # _ \<Rightarrow> a)"

definition addressed_session :: "state \<Rightarrow> string \<Rightarrow> nat option" where
  "addressed_session st data =
     (case parseInt (nth_opt (split_colon data) 1) of
        None \<Rightarrow> None
      | Some k \<Rightarrow> activeHelperGames st k)"

text \<open>The \<open>case\<close> labels of the \<open>switch\<close>.\<close>

definition known_actions :: "string list" where
  "known_actions =
     [''cf_helper_cancel'', ''cf_helper_accept_bot'', ''cf_helper_accept_pvp'',
      ''cf_helper_accept_direct'', ''cf_helper_decline_direct'',
      ''cf_helper_pvb_choice'', ''cf_helper_pvp_choice'']"

text \<open>The identity test guarding each action, and the alert of its \<open>else\<close> branch.\<close>

definition authorized :: "string \<Rightarrow> session \<Rightarrow> string list \<Rightarrow> string \<Rightarrow> bool" where
  "authorized action session params clickerId =
     (if action = ''cf_helper_cancel'' then clickerId = js_String (initiator_id session)
      else if action = ''cf_helper_accept_bot'' then clickerId = js_String (initiator_id session)
      else if action = ''cf_helper_accept_pvp'' then clickerId \<noteq> js_String (initiator_id session)
      else if action = ''cf_helper_accept_direct'' then clickerId = js_String (opponent_id session)
      else if action = ''cf_helper_decline_direct'' then clickerId = js_String (opponent_id session)
      else if action = ''cf_helper_pvb_choice'' then clickerId = js_String (initiator_id session)
      else if action = ''cf_helper_pvp_choice'' then
        clickerId = js_String (case nth_opt params 0 of None \<Rightarrow> Undefined | Some c \<Rightarrow> Str c)
      else False)"

definition denial :: "string \<Rightarrow> string option" where
  "denial action =
     (if action = ''cf_helper_cancel'' then Some ''Only the initiator can cancel.''
      else if action = ''cf_helper_accept_bot'' then Some ''Only the initiator can play vs the Bot.''
      else if action = ''cf_helper_accept_pvp'' then Some ''You can't accept your own challenge.''
      else if action = ''cf_helper_accept_direct'' then Some ''This challenge is not for you.''
      else if action = ''cf_helper_decline_direct'' then Some ''This challenge is not for you.''
      else if action = ''cf_helper_pvp_choice'' then Some ''It's not your turn to call.''
      else None)"

section \<open>The earlier draft\<close>

text \<open>
  \<open>coinflip_helper.js\<close> is an earlier draft of the same helper. Its finalizer, its offer
  functions up to the timeout callback and the order of two statements, and its animation
  function (there \<open>runCoinflipAnimation\<close>) have the lines modelled above. It differs
  in the functions below: the timeout handlers test \<open>session.status\<close> and do not clear
  the timer; the flow functions put the session in the Map after arming the timer; the
  callback handler answers only in the cancel and denial branches, deletes the message on
  cancel, has no direct-challenge actions, and calls \<open>getRawPlayerDisplayReference\<close>,
  which the file neither defines nor imports, so that call throws. The draft has no
  \<open>handleNewGameSession\<close>.
\<close>

definition runCoinflipAnimation ::
  "io \<Rightarrow> nat \<Rightarrow> string option \<Rightarrow> bool \<Rightarrow> state \<Rightarrow> error option \<times> state" where
  "runCoinflipAnimation = runCoinflipAnimationAndFinalize"

definition runCoinflipPvB_draft :: "io \<Rightarrow> nat \<Rightarrow> state \<Rightarrow> error option \<times> state" where
  "runCoinflipPvB_draft io r st =
     andThen (editMessageText (edit_ok io) PvBPromptMsg st)
       (\<lambda>st1. (let st2 = armSessionTimeout r Player_turn st1
               in (None, st2\<lparr>activeHelperGames :=
                            (activeHelperGames st2)(session_id (heap st2 ! r) \<mapsto> r)\<rparr>)))"

definition handleOfferTimeout :: "io \<Rightarrow> int \<Rightarrow> state \<Rightarrow> error option \<times> state" where
  "handleOfferTimeout io sessionId st =
     (case activeHelperGames st sessionId of
        None \<Rightarrow> (None, st)
      | Some r \<Rightarrow>
          if status (heap st ! r) \<noteq> in_progress then (None, st)
          else andThen (editMessageText (edit_ok io) OfferExpiredMsg st)
                 (\<lambda>st1. (None, finalizeAndRecordOutcome (finalize_query_ok io) sessionId
                                  completed_timeout (game_state_json (heap st1 ! r)) st1)))"

definition handleGameTimeout_draft ::
  "io \<Rightarrow> int \<Rightarrow> timeout_context \<Rightarrow> state \<Rightarrow> error option \<times> state" where
  "handleGameTimeout_draft io sessionId turnType st =
     (case activeHelperGames st sessionId of
        None \<Rightarrow> (None, st)
      | Some r \<Rightarrow>
          if status (heap st ! r) \<noteq> in_progress then (None, st)
          else
            (let session = heap st ! r;
                 finalStatus =
                   (if turnType = Caller_turn then
                      (if js_String (callerId (game_state_json session)) =
                          js_String (initiator_id session)
                       then completed_p2_win else completed_p1_win)
                    else completed_bot_win)
             in andThen (editMessageText (edit_ok io) PlayerTimedOutMsg st)
                  (\<lambda>st1. (None, finalizeAndRecordOutcome (finalize_query_ok io) sessionId
                                   finalStatus (game_state_json (heap st1 ! r)) st1))))"

definition dispatch_draft ::
  "io \<Rightarrow> string \<Rightarrow> int \<Rightarrow> nat \<Rightarrow> string list \<Rightarrow> user \<Rightarrow> state \<Rightarrow> error option \<times> state" where
  "dispatch_draft io action sessionId r params sender st =
     (let clickerId = js_String (Num (user_id sender));
          session = heap st ! r
      in
      if action = ''cf_helper_cancel'' then
        (if clickerId = js_String (initiator_id session) then
           andThen (answerCallbackQuery (answer_ok io) (Some ''Offer cancelled.'') False st)
             (\<lambda>st1. (let st2 = (if delete_ok io then emit DeleteMessage st1 else st1)
                     in (None, finalizeAndRecordOutcome (finalize_query_ok io) sessionId
                                 completed_cancelled (game_state_json (heap st2 ! r)) st2)))
         else answerCallbackQuery (answer_ok io) (Some ''Only the initiator can cancel.'') True st)
      else if action = ''cf_helper_accept_bot'' then
        (if clickerId = js_String (initiator_id session) then runCoinflipPvB_draft io r st
         else answerCallbackQuery (answer_ok io) (Some ''Only the initiator can play vs the Bot.'') True st)
      else if action = ''cf_helper_accept_pvp'' then
        (if clickerId \<noteq> js_String (initiator_id session) then
           (Some ReferenceError,
            st\<lparr>heap := (heap st)[r := session\<lparr>opponent_id := Str clickerId\<rparr>]\<rparr>)
         else answerCallbackQuery (answer_ok io) (Some ''You can't accept your own challenge.'') True st)
      else if action = ''cf_helper_pvb_choice'' then
        (if clickerId = js_String (initiator_id session) then
           runCoinflipAnimation io r (nth_opt params 0) False st
         else (None, st))
      else if action = ''cf_helper_pvp_choice'' then
        (let callerId = (case nth_opt params 0 of None \<Rightarrow> Undefined | Some c \<Rightarrow> Str c)
         in if clickerId = js_String callerId then (Some ReferenceError, st)
            else answerCallbackQuery (answer_ok io) (Some ''It's not your turn to call.'') True st)
      else (None, st))"

definition callback_query_draft :: "io \<Rightarrow> string \<Rightarrow> user \<Rightarrow> state \<Rightarrow> error option \<times> state" where
  "callback_query_draft io data sender st =
     (let parts = split_colon data;
          action = (case parts of [] \<Rightarrow> [] | a # _ \<Rightarrow> a);
          sessionIdStr = nth_opt parts 1;
          params = drop 2 parts;
          sessionId = parseInt sessionIdStr
      in case sessionId of
           None \<Rightarrow> answerCallbackQuery (answer_ok io) (Some ''This game is no longer active.'') True st
         | Some k \<Rightarrow>
             (case activeHelperGames st k of
                None \<Rightarrow>
                  answerCallbackQuery (answer_ok io) (Some ''This game is no longer active.'') True st
              | Some r \<Rightarrow> dispatch_draft io action k r params sender (clearSessionTimeout r st)))"

section \<open>Handlers run one after another\<close>

text \<open>
  An event is a pickup notification, a callback query or a pending timer firing, with the
  answers of the outside world during its handler. \<open>run\<close> lets each handler finish
  before the next event is taken.
\<close>

datatype event = Pickup io jsval | Action io string user | TimerFires io nat

fun handle :: "event \<Rightarrow> state \<Rightarrow> state" where
  "handle (Pickup io mainBotGameId) st = snd (handleNewGameSession io mainBotGameId st)"
| "handle (Action io data sender) st = snd (callback_query io data sender st)"
| "handle (TimerFires io h) st = snd (timer_fires io h st)"

definition run :: "event list \<Rightarrow> state \<Rightarrow> state" where
  "run evs st = foldl (\<lambda>s e. handle e s) st evs"


section \<open>A choice handler between its suspension points\<close>

text \<open>
  The handler of a heads/tails choice awaits four times: the answer to the callback, the
  animation (its frames and sleeps, which touch no state), the edit that reveals the
  result, and the final update. A \<open>task\<close> is such a handler suspended at one of these
  points; \<open>begin_callback\<close> runs a callback up to its first suspension (other callbacks
  are run to their end at once), and \<open>resume\<close> runs a task to its next suspension. The
  update takes the status and the game state as they are when the query is issued; its
  effect on the table is placed at the moment the query resolves.
\<close>

datatype task =
    Answering nat "string list" user bool
  | Animating nat string bool
  | Revealing nat string jsval status
  | Persisting int status gameState

definition begin_callback :: "io \<Rightarrow> string \<Rightarrow> user \<Rightarrow> state \<Rightarrow> task option \<times> state" where
  "begin_callback io data sender st =
     (case addressed_session st data of
        None \<Rightarrow> (None, snd (callback_query io data sender st))
      | Some r \<Rightarrow>
          (let st1 = clearSessionTimeout r st;
               action = action_of data;
               params = drop 2 (split_colon data);
               clickerId = js_String (Num (user_id sender));
               session = heap st1 ! r
           in if action = ''cf_helper_pvb_choice'' \<and> clickerId = js_String (initiator_id session)
              then (Some (Answering r params sender False), st1)
              else if action = ''cf_helper_pvp_choice'' \<and>
                      clickerId = js_String (case nth_opt params 0 of None \<Rightarrow> Undefined | Some c \<Rightarrow> Str c)
              then (Some (Answering r params sender True), st1)
              else (None, snd (callback_query io data sender st))))"

fun resume :: "io \<Rightarrow> task \<Rightarrow> state \<Rightarrow> task option \<times> state" where
  "resume io (Answering r params sender isPvP) st =
     (if \<not> answer_ok io then (None, st)
      else
        (let st1 = emit (AnswerCallbackQuery None False) st;
             st2 = (if isPvP
                    then update_gameState r (\<lambda>g. g\<lparr>callerName := getPlayerDisplayReference sender\<rparr>) st1
                    else st1);
             st3 = clearSessionTimeout r st2
         in case nth_opt params (if isPvP then 1 else 0) of
              None \<Rightarrow> (None, st3)
            | Some choice \<Rightarrow> (Some (Animating r choice isPvP), st3)))"
| "resume io (Animating r choice isPvP) st =
     (let st2 = animation_loop 0 (frame_edits io) st;
          landed = actualFlipOutcome (random_flip io);
          (winnerId, finalStatus) = decide (heap st2 ! r) choice landed isPvP;
          st3 = update_gameState r (\<lambda>g. g\<lparr>winner := winnerId\<rparr>) st2
      in (Some (Revealing r landed winnerId finalStatus), st3))"
| "resume io (Revealing r landed winnerId finalStatus) st =
     (if \<not> reveal_edit_ok io then (None, st)
      else
        (let st1 = emit (EditMessageText (RevealMsg landed winnerId)) st;
             st2 = emit ConsoleLog st1
         in (Some (Persisting (session_id (heap st2 ! r)) finalStatus (game_state_json (heap st2 ! r))),
             st2)))"
| "resume io (Persisting sessionId finalStatus snapshot) st =
     (None,
      if finalize_query_ok io then
        st\<lparr>coinflip_sessions := update_final sessionId finalStatus snapshot (coinflip_sessions st),
           persisted := persisted st @ [(sessionId, finalStatus, snapshot)],
           activeHelperGames := (activeHelperGames st)(sessionId := None)\<rparr>
      else emit ConsoleError st)"

fun uninterrupted :: "nat \<Rightarrow> io \<Rightarrow> task option \<times> state \<Rightarrow> state" where
  "uninterrupted 0 io (t, st) = st"
| "uninterrupted (Suc n) io (None, st) = st"
| "uninterrupted (Suc n) io (Some t, st) = uninterrupted n io (resume io t st)"

datatype wake = Click io string user | Continue io nat

fun event_loop :: "wake list \<Rightarrow> task option list \<times> state \<Rightarrow> task option list \<times> state" where
  "event_loop [] c = c"
| "event_loop (Click io data sender # ws) (pool, st) =
     (case begin_callback io data sender st of
        (t, st') \<Rightarrow> event_loop ws (pool @ [t], st'))"
| "event_loop (Continue io i # ws) (pool, st) =
     (case nth_opt pool i of
        Some (Some t) \<Rightarrow>
          (case resume io t st of (t', st') \<Rightarrow> event_loop ws (pool[i := t'], st'))
      | _ \<Rightarrow> event_loop ws (pool, st))"


section \<open>Notions used in the proofs\<close>

text \<open>A field of the session object that the game flow never assigns through the game state or the timer handle.\<close>

definition untouched_by_flow :: "(session \<Rightarrow> 'a) \<Rightarrow> bool" where
  "untouched_by_flow f =
     ((\<forall>s g. f (s\<lparr>game_state_json := g\<rparr>) = f s) \<and> (\<forall>s t. f (s\<lparr>timeoutId := t\<rparr>) = f s))"

text \<open>
  What the finalize-once argument needs of a state: the Map, the session ids of the
  objects, the persisted outcomes, and the ids of the rows still waiting for pickup.
\<close>

definition terminal :: "status \<Rightarrow> bool" where
  "terminal s = (s \<noteq> pending_pickup \<and> s \<noteq> in_progress)"

definition pending_ids :: "session list \<Rightarrow> int list" where
  "pending_ids tbl = map session_id (filter (\<lambda>row. status row = pending_pickup) tbl)"

definition session_ids :: "state \<Rightarrow> int list" where
  "session_ids st = map session_id (heap st)"

definition sound :: "state \<Rightarrow> bool" where
  "sound st =
     ((\<forall>k r. activeHelperGames st k = Some r \<longrightarrow>
          r < length (session_ids st) \<and> session_ids st ! r = k) \<and>
      (\<forall>k \<in> set (map fst (persisted st)).
          activeHelperGames st k = None \<and> k \<notin> set (pending_ids (coinflip_sessions st))) \<and>
      distinct (map fst (persisted st)) \<and>
      list_all (\<lambda>e. terminal (fst (snd e))) (persisted st))"

definition same_skeleton :: "state \<Rightarrow> state \<Rightarrow> bool" where
  "same_skeleton st st' =
     (activeHelperGames st' = activeHelperGames st \<and>
      session_ids st' = session_ids st \<and>
      persisted st' = persisted st \<and>
      pending_ids (coinflip_sessions st') = pending_ids (coinflip_sessions st))"

definition finalized :: "int \<Rightarrow> state \<Rightarrow> state \<Rightarrow> bool" where
  "finalized k st st' =
     (activeHelperGames st' = (activeHelperGames st)(k := None) \<and>
      session_ids st' = session_ids st \<and>
      (\<exists>fs g. terminal fs \<and> persisted st' = persisted st @ [(k, fs, g)]) \<and>
      pending_ids (coinflip_sessions st') = filter (\<lambda>i. i \<noteq> k) (pending_ids (coinflip_sessions st)))"

section \<open>Example inputs\<close>

text \<open>
  A session of initiator 111, picked up and shown as a unified offer: object 0 of the heap,
  registered under its id 7, with the offer timer 0 pending.
\<close>

definition example_game_state :: gameState where
  "example_game_state =
     \<lparr>helperMessageId = Num 55, initiatorName = Str ''alice'', opponentName = Undefined,
      callerId = Undefined, callerName = Undefined, winner = Undefined,
      gs_status = Undefined, gs_error = Undefined\<rparr>"

definition example_row :: session where
  "example_row =
     \<lparr>session_id = 7, main_bot_game_id = Str ''g42'', chat_id = Num (- 100),
      initiator_id = Str ''111'', opponent_id = Null, status = in_progress,
      helper_bot_id = Str ''900'', game_state_json = example_game_state, timeoutId = None\<rparr>"

definition example_state :: state where
  "example_state =
     \<lparr>heap = [example_row\<lparr>timeoutId := Some 0\<rparr>], activeHelperGames = [7 \<mapsto> 0],
      coinflip_sessions = [example_row], timers = [0 \<mapsto> (7, Offer)], next_timer = 1,
      persisted = [], outs = []\<rparr>"

text \<open>The process right after start, over a given table; and one row waiting for pickup.\<close>

definition startup :: "session list \<Rightarrow> state" where
  "startup tbl =
     \<lparr>heap = [], activeHelperGames = Map.empty, coinflip_sessions = tbl, timers = Map.empty,
      next_timer = 0, persisted = [], outs = []\<rparr>"

definition example_pending :: state where
  "example_pending = startup [example_row\<lparr>status := pending_pickup\<rparr>]"

text \<open>Every awaited call resolves; both random comparisons are true.\<close>

definition all_resolve :: io where
  "all_resolve =
     \<lparr>BOT_ID = ''900'', connect_ok = True, begin_ok = True, claim_query_ok = True,
      rollback_ok = True, commit_ok = True, catch_rollback_ok = True,
      sendMessage_result = Some 55, gs_query_ok = True, finalize_query_ok = True,
      answer_ok = True, edit_ok = True, delete_ok = True, frame_edits = [], reveal_edit_ok = True,
      random_caller = True, random_flip = True\<rparr>"

definition alice :: user where
  "alice = \<lparr>user_id = 111, username = Str ''alice'', first_name = Str ''Alice''\<rparr>"

definition bob :: user where
  "bob = \<lparr>user_id = 222, username = Undefined, first_name = Str ''Bob''\<rparr>"

definition carol :: user where
  "carol = \<lparr>user_id = 333, username = Undefined, first_name = Str ''Carol''\<rparr>"


definition example_pvb :: state where
  "example_pvb = snd (callback_query all_resolve ''cf_helper_accept_bot:7'' alice example_state)"

definition example_pvp :: state where
  "example_pvp = snd (callback_query all_resolve ''cf_helper_accept_pvp:7'' bob example_state)"

text \<open>
  Alice clicks "Heads" twice during a PvB choice. The first handler's flip lands heads,
  the second handler's flip lands tails; the second click is handled while the first
  handler is in its animation.
\<close>

definition tails_lands :: io where
  "tails_lands = all_resolve\<lparr>random_flip := False\<rparr>"

definition double_click :: "wake list" where
  "double_click =
     [Click all_resolve ''cf_helper_pvb_choice:7:heads'' alice, Continue all_resolve 0,
      Click tails_lands ''cf_helper_pvb_choice:7:heads'' alice, Continue tails_lands 1,
      Continue all_resolve 0, Continue tails_lands 1,
      Continue all_resolve 0, Continue tails_lands 1,
      Continue all_resolve 0, Continue tails_lands 1]"

text \<open>
  In the PvP game of Alice and Bob, where Alice is the caller, Carol accepts the offer as
  well; this time the random comparison of \<open>runCoinflipPvP\<close> makes the opponent the
  caller.
\<close>

definition opponent_calls :: io where
  "opponent_calls = all_resolve\<lparr>random_caller := False\<rparr>"

definition example_reaccepted :: state where
  "example_reaccepted =
     snd (callback_query opponent_calls ''cf_helper_accept_pvp:7'' carol example_pvp)"

text \<open>
  A row whose external game id is the number 7, like its session id, already claimed: its
  session object is registered and its offer timer pending. The notification for game 7
  arrives once more, and the \<open>ROLLBACK\<close> of the no-row branch is rejected.
\<close>

definition example_redelivery :: state where
  "example_redelivery =
     example_state\<lparr>heap := [example_row\<lparr>main_bot_game_id := Num 7, timeoutId := Some 0\<rparr>],
                    coinflip_sessions := [example_row\<lparr>main_bot_game_id := Num 7\<rparr>]\<rparr>"

definition rollback_fails :: io where
  "rollback_fails = all_resolve\<lparr>rollback_ok := False\<rparr>"

text \<open>Callback data with an unknown action and a no-break space (U+00A0) before the id.\<close>

definition nbsp_data :: string where
  "nbsp_data = ''bogus:'' @ [CHR 0xC2, CHR 0xA0] @ ''7''"

section \<open>Properties\<close>

subsection \<open>Basic facts about the primitives\<close>

lemma emit_fields [simp]:
  "heap (emit x st) = heap st"
  "activeHelperGames (emit x st) = activeHelperGames st"
  "coinflip_sessions (emit x st) = coinflip_sessions st"
  "timers (emit x st) = timers st"
  "next_timer (emit x st) = next_timer st"
  "persisted (emit x st) = persisted st"
  "outs (emit x st) = outs st @ [x]"
  by (simp_all add: emit_def)

lemma clearSessionTimeout_fields [simp]:
  "heap (clearSessionTimeout r st) = heap st"
  "activeHelperGames (clearSessionTimeout r st) = activeHelperGames st"
  "coinflip_sessions (clearSessionTimeout r st) = coinflip_sessions st"
  "next_timer (clearSessionTimeout r st) = next_timer st"
  "persisted (clearSessionTimeout r st) = persisted st"
  "outs (clearSessionTimeout r st) = outs st"
  by (simp_all add: clearSessionTimeout_def split: option.splits)

lemma timers_clearSessionTimeout:
  "timers (clearSessionTimeout r st) =
     (case timeoutId (heap st ! r) of None \<Rightarrow> timers st | Some h \<Rightarrow> (timers st)(h := None))"
  by (simp add: clearSessionTimeout_def split: option.splits)

lemma andThen_simps [simp]:
  "andThen (None, st) k = k st"
  "andThen (Some e, st) k = (Some e, st)"
  by (simp_all add: andThen_def)

lemma answerCallbackQuery_fields [simp]:
  "heap (snd (answerCallbackQuery ok txt alert st)) = heap st"
  "activeHelperGames (snd (answerCallbackQuery ok txt alert st)) = activeHelperGames st"
  "coinflip_sessions (snd (answerCallbackQuery ok txt alert st)) = coinflip_sessions st"
  "timers (snd (answerCallbackQuery ok txt alert st)) = timers st"
  "next_timer (snd (answerCallbackQuery ok txt alert st)) = next_timer st"
  "persisted (snd (answerCallbackQuery ok txt alert st)) = persisted st"
  by (simp_all add: answerCallbackQuery_def)

lemma finalize_fields [simp]:
  "heap (finalizeAndRecordOutcome ok sid fs g st) = heap st"
  "timers (finalizeAndRecordOutcome ok sid fs g st) = timers st"
  "next_timer (finalizeAndRecordOutcome ok sid fs g st) = next_timer st"
  "persisted (finalizeAndRecordOutcome ok sid fs g st) =
     persisted st @ (if ok then [(sid, fs, g)] else [])"
  "activeHelperGames (finalizeAndRecordOutcome ok sid fs g st) =
     (if ok then (activeHelperGames st)(sid := None) else activeHelperGames st)"
  "coinflip_sessions (finalizeAndRecordOutcome ok sid fs g st) =
     (if ok then update_final sid fs g (coinflip_sessions st) else coinflip_sessions st)"
  by (simp_all add: finalizeAndRecordOutcome_def Let_def)

lemma update_gameState_fields [simp]:
  "activeHelperGames (update_gameState r f st) = activeHelperGames st"
  "coinflip_sessions (update_gameState r f st) = coinflip_sessions st"
  "timers (update_gameState r f st) = timers st"
  "next_timer (update_gameState r f st) = next_timer st"
  "persisted (update_gameState r f st) = persisted st"
  "outs (update_gameState r f st) = outs st"
  "length (heap (update_gameState r f st)) = length (heap st)"
  by (simp_all add: update_gameState_def Let_def)

lemma heap_update_gameState:
  "r < length (heap st) \<Longrightarrow>
   heap (update_gameState r f st) ! r =
     (heap st ! r)\<lparr>game_state_json := f (game_state_json (heap st ! r))\<rparr>"
  by (simp add: update_gameState_def Let_def)

text \<open>The animation only adds to the trace.\<close>

lemma animation_loop_outs_only:
  "animation_loop i rs st = st\<lparr>outs := outs (animation_loop i rs st)\<rparr>"
proof (induction i rs st rule: animation_loop.induct)
  case (1 i rs st)
  show ?case
  proof (cases "i < COIN_FLIP_ANIMATION_STEPS")
    case False
    then show ?thesis by (simp add: animation_loop.simps)
  next
    case True
    show ?thesis
    proof (cases "case rs of [] \<Rightarrow> FrameShown | x # _ \<Rightarrow> x")
      case FrameShown
      have "animation_loop i rs st =
            animation_loop (Suc i) (tl rs) (emit (EditMessageText (FrameMsg (i mod 8))) st)"
        using True FrameShown by (subst animation_loop.simps) simp
      moreover have
        "animation_loop (Suc i) (tl rs) (emit (EditMessageText (FrameMsg (i mod 8))) st) =
           (emit (EditMessageText (FrameMsg (i mod 8))) st)
             \<lparr>outs := outs (animation_loop (Suc i) (tl rs)
                               (emit (EditMessageText (FrameMsg (i mod 8))) st))\<rparr>"
        using "1.IH"(1) [OF True FrameShown] .
      ultimately show ?thesis by (simp add: emit_def)
    next
      case FrameNotModified
      have "animation_loop i rs st = animation_loop (Suc i) (tl rs) st"
        using True FrameNotModified by (subst animation_loop.simps) simp
      then show ?thesis using "1.IH"(2) [OF True FrameNotModified] by simp
    next
      case FrameFailed
      have "animation_loop i rs st = st"
        using True FrameFailed by (subst animation_loop.simps) simp
      then show ?thesis by simp
    qed
  qed
qed

lemma animation_loop_fields [simp]:
  "heap (animation_loop i rs st) = heap st"
  "activeHelperGames (animation_loop i rs st) = activeHelperGames st"
  "coinflip_sessions (animation_loop i rs st) = coinflip_sessions st"
  "timers (animation_loop i rs st) = timers st"
  "next_timer (animation_loop i rs st) = next_timer st"
  "persisted (animation_loop i rs st) = persisted st"
  by (subst animation_loop_outs_only, simp)+

text \<open>
  \<open>parseInt\<close> on some inputs: a missing field, leading white space outside ASCII, a
  sign, trailing text, and a number that is not a double.
\<close>

lemma parseInt_examples:
  "parseInt None = None"
  "parseInt (Some ''7'') = Some 7"
  "parseInt (Some ''x7'') = None"
  "parseInt (Some ([CHR 0xC2, CHR 0xA0] @ '' -7px'')) = Some (- 7)"
  "parseInt (Some ([CHR 0xEF, CHR 0xBB, CHR 0xBF] @ ''+12'')) = Some 12"
  "parseInt (Some ''- 7'') = None"
  "parseInt (Some ''9007199254740993'') = Some 9007199254740992"
  by code_simp+

subsection \<open>Routing of a callback\<close>

lemma callback_query_absent:
  "addressed_session st data = None \<Longrightarrow>
   callback_query io data sender st =
     answerCallbackQuery (answer_ok io) (Some ''This game is no longer active.'') True st"
  by (simp add: callback_query_def addressed_session_def Let_def split: option.splits)

lemma callback_query_present:
  "addressed_session st data = Some r \<Longrightarrow>
   callback_query io data sender st =
     dispatch io (action_of data) (the (parseInt (nth_opt (split_colon data) 1))) r
       (drop 2 (split_colon data)) sender (clearSessionTimeout r st)"
  by (auto simp: callback_query_def addressed_session_def action_of_def Let_def
           split: option.splits)

lemma dispatch_unknown:
  "action \<notin> set known_actions \<Longrightarrow> dispatch io action k r params sender st = (None, st)"
  by (simp add: dispatch_def known_actions_def Let_def)

lemma dispatch_denied:
  assumes "denial action = Some txt"
    and "\<not> authorized action (heap st ! r) params (js_String (Num (user_id sender)))"
  shows "dispatch io action k r params sender st =
           answerCallbackQuery (answer_ok io) (Some txt) True st"
proof -
  from assms(1) consider
      "action = ''cf_helper_cancel''" | "action = ''cf_helper_accept_bot''"
    | "action = ''cf_helper_accept_pvp''" | "action = ''cf_helper_accept_direct''"
    | "action = ''cf_helper_decline_direct''" | "action = ''cf_helper_pvp_choice''"
    by (auto simp: denial_def split: if_splits)
  then show ?thesis
    using assms
    by cases (simp_all add: dispatch_def denial_def authorized_def Let_def del: js_String.simps)
qed

text \<open>The branch of the \<open>switch\<close> for each action.\<close>

lemma dispatch_cancel:
  "dispatch io ''cf_helper_cancel'' k r params sender st =
     (if js_String (Num (user_id sender)) = js_String (initiator_id (heap st ! r)) then
        andThen (answerCallbackQuery (answer_ok io) (Some ''Offer withdrawn.'') False st)
          (\<lambda>st1. andThen (editMessageText (edit_ok io) OfferWithdrawnMsg st1)
             (\<lambda>st2. (None, finalizeAndRecordOutcome (finalize_query_ok io) k
                              completed_cancelled (game_state_json (heap st2 ! r)) st2)))
      else answerCallbackQuery (answer_ok io) (Some ''Only the initiator can cancel.'') True st)"
  by (simp add: dispatch_def Let_def del: js_String.simps)

lemma dispatch_accept_bot:
  "dispatch io ''cf_helper_accept_bot'' k r params sender st =
     (if js_String (Num (user_id sender)) = js_String (initiator_id (heap st ! r)) then
        andThen (answerCallbackQuery (answer_ok io) None False st) (runCoinflipPvB io r)
      else answerCallbackQuery (answer_ok io) (Some ''Only the initiator can play vs the Bot.'') True st)"
  by (simp add: dispatch_def Let_def del: js_String.simps)

lemma dispatch_accept_pvp:
  "dispatch io ''cf_helper_accept_pvp'' k r params sender st =
     (if js_String (Num (user_id sender)) \<noteq> js_String (initiator_id (heap st ! r)) then
        andThen (answerCallbackQuery (answer_ok io) None False
                  (update_gameState r (\<lambda>g. g\<lparr>opponentName := getPlayerDisplayReference sender\<rparr>)
                     (st\<lparr>heap := (heap st)[r := (heap st ! r)
                             \<lparr>opponent_id := Str (js_String (Num (user_id sender)))\<rparr>]\<rparr>)))
          (runCoinflipPvP io r)
      else answerCallbackQuery (answer_ok io) (Some ''You can't accept your own challenge.'') True st)"
  by (simp add: dispatch_def Let_def del: js_String.simps)

lemma dispatch_accept_direct:
  "dispatch io ''cf_helper_accept_direct'' k r params sender st =
     (if js_String (Num (user_id sender)) = js_String (opponent_id (heap st ! r)) then
        andThen (answerCallbackQuery (answer_ok io) None False st) (runCoinflipPvP io r)
      else answerCallbackQuery (answer_ok io) (Some ''This challenge is not for you.'') True st)"
  by (simp add: dispatch_def Let_def del: js_String.simps)

lemma dispatch_decline_direct:
  "dispatch io ''cf_helper_decline_direct'' k r params sender st =
     (if js_String (Num (user_id sender)) = js_String (opponent_id (heap st ! r)) then
        andThen (answerCallbackQuery (answer_ok io) None False st)
          (\<lambda>st1. andThen (editMessageText (edit_ok io) DuelDeclinedMsg st1)
             (\<lambda>st2. (None, finalizeAndRecordOutcome (finalize_query_ok io) k
                              completed_cancelled (game_state_json (heap st2 ! r)) st2)))
      else answerCallbackQuery (answer_ok io) (Some ''This challenge is not for you.'') True st)"
  by (simp add: dispatch_def Let_def del: js_String.simps)

lemma dispatch_pvb_choice:
  "dispatch io ''cf_helper_pvb_choice'' k r params sender st =
     (if js_String (Num (user_id sender)) = js_String (initiator_id (heap st ! r)) then
        andThen (answerCallbackQuery (answer_ok io) None False st)
          (runCoinflipAnimationAndFinalize io r (nth_opt params 0) False)
      else (None, st))"
  by (simp add: dispatch_def Let_def del: js_String.simps)

lemma dispatch_pvp_choice:
  "dispatch io ''cf_helper_pvp_choice'' k r params sender st =
     (if js_String (Num (user_id sender)) =
         js_String (case nth_opt params 0 of None \<Rightarrow> Undefined | Some c \<Rightarrow> Str c) then
        andThen (answerCallbackQuery (answer_ok io) None False st)
          (\<lambda>st1. runCoinflipAnimationAndFinalize io r (nth_opt params 1) True
                    (update_gameState r (\<lambda>g. g\<lparr>callerName := getPlayerDisplayReference sender\<rparr>) st1))
      else answerCallbackQuery (answer_ok io) (Some ''It's not your turn to call.'') True st)"
  by (simp add: dispatch_def Let_def del: js_String.simps)

lemma action_cases:
  obtains "action \<notin> set known_actions"
    | "action = ''cf_helper_cancel''" | "action = ''cf_helper_accept_bot''"
    | "action = ''cf_helper_accept_pvp''" | "action = ''cf_helper_accept_direct''"
    | "action = ''cf_helper_decline_direct''" | "action = ''cf_helper_pvb_choice''"
    | "action = ''cf_helper_pvp_choice''"
proof (cases "action \<in> set known_actions")
  case False
  then show ?thesis using that(1) by blast
next
  case True
  then have "action = ''cf_helper_cancel'' \<or> action = ''cf_helper_accept_bot'' \<or>
      action = ''cf_helper_accept_pvp'' \<or> action = ''cf_helper_accept_direct'' \<or>
      action = ''cf_helper_decline_direct'' \<or> action = ''cf_helper_pvb_choice'' \<or>
      action = ''cf_helper_pvp_choice''"
    unfolding known_actions_def by (simp only: list.set insert_iff empty_iff simp_thms)
  then show ?thesis
    by (elim disjE) (erule that(2) that(3) that(4) that(5) that(6) that(7) that(8))+
qed

subsection \<open>The finalizer when the update fails\<close>

text \<open>
  C5 (as amended). When the update of the final status is rejected,
  \<open>finalizeAndRecordOutcome\<close> leaves the Map, the table, the timers and the session
  objects as they were: the session stays registered, and only the two log lines are added.
\<close>

theorem finalize_failure_keeps_session:
  "finalizeAndRecordOutcome False sessionId finalStatus finalGameState st =
     st\<lparr>outs := outs st @ [ConsoleLog, ConsoleError]\<rparr>"
  by (simp add: finalizeAndRecordOutcome_def emit_def)

text \<open>
  C5 as stated fails: after a rejected update, session 7 of the example is still in the Map.
\<close>

theorem finalize_failure_counterexample:
  "activeHelperGames
     (finalizeAndRecordOutcome False 7 completed_cancelled example_game_state example_state) 7
   \<noteq> None"
  by (simp add: finalizeAndRecordOutcome_def emit_def example_state_def)

subsection \<open>Unauthorized actions\<close>

text \<open>
  C2 (as amended). The handler has no notion of a phase: each action has its own identity
  test (cancel, accept-bot and pvb-choice: the initiator; accept-pvp: anyone but the
  initiator; accept-direct and decline-direct: the session's opponent; pvp-choice: the
  identity named in the callback data), applied whatever step the session is at. A cancel,
  accept-bot, accept-pvp, accept-direct, decline-direct or pvp-choice action on a
  registered session, sent by an identity that fails the action's own test, is answered
  with the action's denial alert (when the answer call resolves); no session object, Map
  entry, table row or persisted outcome changes. The session's timer was cancelled at
  handler entry and stays cancelled: no timer is armed.
\<close>

theorem unauthorized_action_denied:
  assumes "addressed_session st data = Some r"
    and "denial (action_of data) = Some txt"
    and "\<not> authorized (action_of data) (heap st ! r) (drop 2 (split_colon data))
             (js_String (Num (user_id sender)))"
  shows "callback_query io data sender st =
           answerCallbackQuery (answer_ok io) (Some txt) True (clearSessionTimeout r st) \<and>
         heap (snd (callback_query io data sender st)) = heap st \<and>
         activeHelperGames (snd (callback_query io data sender st)) = activeHelperGames st \<and>
         coinflip_sessions (snd (callback_query io data sender st)) = coinflip_sessions st \<and>
         persisted (snd (callback_query io data sender st)) = persisted st \<and>
         next_timer (snd (callback_query io data sender st)) = next_timer st \<and>
         timers (snd (callback_query io data sender st)) =
           (case timeoutId (heap st ! r) of
              None \<Rightarrow> timers st
            | Some h \<Rightarrow> (timers st)(h := None))"
proof -
  have eq: "callback_query io data sender st =
           answerCallbackQuery (answer_ok io) (Some txt) True (clearSessionTimeout r st)"
    using assms by (simp add: callback_query_present dispatch_denied)
  show ?thesis
    unfolding eq by (simp add: timers_clearSessionTimeout)
qed

theorem unauthorized_action_denied_witness:
  "callback_query all_resolve ''cf_helper_cancel:7'' bob example_state =
     (None, example_state\<lparr>timers := Map.empty,
              outs := [AnswerCallbackQuery (Some ''Only the initiator can cancel.'') True]\<rparr>)"
proof -
  have h1: "addressed_session example_state ''cf_helper_cancel:7'' = Some 0"
    by code_simp
  have h2: "denial (action_of ''cf_helper_cancel:7'') = Some ''Only the initiator can cancel.''"
    by code_simp
  have h3: "\<not> authorized (action_of ''cf_helper_cancel:7'') (heap example_state ! 0)
                (drop 2 (split_colon ''cf_helper_cancel:7'')) (js_String (Num (user_id bob)))"
    by code_simp
  show ?thesis
    using unauthorized_action_denied [OF h1 h2 h3, of all_resolve]
    by (simp add: answerCallbackQuery_def all_resolve_def clearSessionTimeout_def
          example_state_def emit_def)
qed

subsection \<open>Callbacks that reach no session or no action\<close>

text \<open>
  C10 (as amended). A callback whose second field parses to no key of the Map (not a
  number, or the id of no registered session) is answered "This game is no longer active."
  and changes nothing else. A callback with an unknown action name for a registered
  session changes no session object, Map entry or table row and persists nothing, but the
  session's pending timer is cancelled by it. The second field is read as \<open>parseInt\<close>
  reads it: white space before the number and anything after its digits are ignored.
\<close>

theorem unroutable_callback:
  "(addressed_session st data = None \<longrightarrow>
      callback_query io data sender st =
        (if answer_ok io
         then (None, st\<lparr>outs := outs st @
                  [AnswerCallbackQuery (Some ''This game is no longer active.'') True]\<rparr>)
         else (Some PresenterError, st))) \<and>
   (addressed_session st data = Some r \<and> action_of data \<notin> set known_actions \<longrightarrow>
      callback_query io data sender st = (None, clearSessionTimeout r st))"
  by (simp add: callback_query_absent callback_query_present dispatch_unknown
        answerCallbackQuery_def emit_def)

theorem unroutable_callback_witness:
  "callback_query all_resolve ''cf_helper_cancel:x7'' alice example_state =
     (None, example_state\<lparr>outs :=
        [AnswerCallbackQuery (Some ''This game is no longer active.'') True]\<rparr>) \<and>
   callback_query all_resolve ''bogus:7'' alice example_state =
     (None, example_state\<lparr>timers := Map.empty\<rparr>) \<and>
   callback_query all_resolve nbsp_data alice example_state =
     (None, example_state\<lparr>timers := Map.empty\<rparr>)"
proof -
  have h1: "addressed_session example_state ''cf_helper_cancel:x7'' = None"
    by code_simp
  have h2: "addressed_session example_state ''bogus:7'' = Some 0"
    by code_simp
  have h3: "action_of ''bogus:7'' \<notin> set known_actions"
    by code_simp
  have h4: "clearSessionTimeout 0 example_state = example_state\<lparr>timers := Map.empty\<rparr>"
    by (simp add: clearSessionTimeout_def example_state_def)
  have h5: "addressed_session example_state nbsp_data = Some 0"
    by code_simp
  have h6: "action_of nbsp_data \<notin> set known_actions"
    by code_simp
  show ?thesis
    using unroutable_callback [where st = example_state and data = "''cf_helper_cancel:x7''"
          and io = all_resolve and sender = alice and r = 0]
      unroutable_callback [where st = example_state and data = "''bogus:7''"
          and io = all_resolve and sender = alice and r = 0]
      unroutable_callback [where st = example_state and data = nbsp_data
          and io = all_resolve and sender = alice and r = 0]
      h1 h2 h3 h4 h5 h6
    by (simp add: all_resolve_def example_state_def)
qed

text \<open>
  C10 as stated fails for an unknown action name sent to a live session: the offer timer 0
  of session 7 is pending before the callback and cancelled after it.
\<close>

theorem unknown_action_counterexample:
  "timers example_state 0 = Some (7, Offer) \<and>
   timers (snd (callback_query all_resolve ''bogus:7'' alice example_state)) 0 = None"
  by code_simp

subsection \<open>Sessions that left the Map\<close>

lemma handleGameTimeout_absent:
  "activeHelperGames st sessionId = None \<Longrightarrow> handleGameTimeout io sessionId ctx st = (None, st)"
  by (simp add: handleGameTimeout_def)



subsection \<open>Timeouts\<close>


lemma session_id_update_gameState [simp]:
  "session_id (heap (update_gameState r f st) ! r) = session_id (heap st ! r)"
  by (cases "r < length (heap st)") (simp_all add: update_gameState_def Let_def list_update_beyond)






subsection \<open>Resolution\<close>

lemma decide_pvb:
  "decide s choice landed False =
     (if choice = landed then (initiator_id s, completed_p1_win) else (Str ''bot'', completed_bot_win))"
  by (simp add: decide_def)

lemma decide_pvp_winner:
  "fst (decide s choice landed True) =
     (if choice = landed then callerId (game_state_json s)
      else if js_String (callerId (game_state_json s)) = js_String (initiator_id s)
           then opponent_id s else initiator_id s)"
  by (simp add: decide_def Let_def)

lemma decide_pvp_status:
  "snd (decide s choice landed True) =
     (if js_String (fst (decide s choice landed True)) = js_String (initiator_id s)
      then completed_p1_win else completed_p2_win)"
  by (simp add: decide_def Let_def)

lemma runCoinflipAnimationAndFinalize_persisted:
  assumes "r < length (heap st)"
  shows "persisted (snd (runCoinflipAnimationAndFinalize io r (Some choice) isPvP st)) =
     persisted st @
       (if reveal_edit_ok io \<and> finalize_query_ok io
        then [(session_id (heap st ! r),
               snd (decide (heap st ! r) choice (actualFlipOutcome (random_flip io)) isPvP),
               (game_state_json (heap st ! r))
                 \<lparr>winner := fst (decide (heap st ! r) choice (actualFlipOutcome (random_flip io)) isPvP)\<rparr>)]
        else [])"
  using assms
  by (simp add: runCoinflipAnimationAndFinalize_def Let_def editMessageText_def
        heap_update_gameState split: prod.splits)

lemma unauthorized_choice_resolves_nothing:
  "js_String (Num (user_id sender)) \<noteq> js_String (initiator_id (heap st ! r)) \<Longrightarrow>
   persisted (snd (dispatch io ''cf_helper_pvb_choice'' k r params sender st)) = persisted st"
  "js_String (Num (user_id sender)) \<noteq>
     js_String (case nth_opt params 0 of None \<Rightarrow> Undefined | Some c \<Rightarrow> Str c) \<Longrightarrow>
   persisted (snd (dispatch io ''cf_helper_pvp_choice'' k r params sender st)) = persisted st"
  by (simp_all add: dispatch_pvb_choice dispatch_pvp_choice del: js_String.simps)

lemma decide_callerName [simp]:
  "decide (s\<lparr>game_state_json := (game_state_json s)\<lparr>callerName := n\<rparr>\<rparr>) choice landed isPvP =
   decide s choice landed isPvP"
  by (simp add: decide_def Let_def)

lemma pvb_choice_persisted:
  assumes "r < length (heap st)"
  shows "persisted (snd (dispatch io ''cf_helper_pvb_choice'' k r (choice # rest) sender st)) =
     persisted st @
       (if js_String (Num (user_id sender)) = js_String (initiator_id (heap st ! r)) \<and>
           answer_ok io \<and> reveal_edit_ok io \<and> finalize_query_ok io
        then [(session_id (heap st ! r),
               snd (decide (heap st ! r) choice (actualFlipOutcome (random_flip io)) False),
               (game_state_json (heap st ! r))
                 \<lparr>winner := fst (decide (heap st ! r) choice
                                   (actualFlipOutcome (random_flip io)) False)\<rparr>)]
        else [])"
proof -
  have n: "nth_opt (choice # rest) 0 = Some choice" by (simp add: nth_opt_def)
  show ?thesis
    using assms
    by (simp add: dispatch_pvb_choice n answerCallbackQuery_def
          runCoinflipAnimationAndFinalize_persisted del: js_String.simps)
qed

lemma pvp_choice_persisted:
  assumes "r < length (heap st)"
  shows "persisted (snd (dispatch io ''cf_helper_pvp_choice'' k r (named # choice # rest) sender st)) =
     persisted st @
       (if js_String (Num (user_id sender)) = named \<and>
           answer_ok io \<and> reveal_edit_ok io \<and> finalize_query_ok io
        then [(session_id (heap st ! r),
               snd (decide (heap st ! r) choice (actualFlipOutcome (random_flip io)) True),
               (game_state_json (heap st ! r))
                 \<lparr>callerName := getPlayerDisplayReference sender,
                  winner := fst (decide (heap st ! r) choice
                                   (actualFlipOutcome (random_flip io)) True)\<rparr>)]
        else [])"
proof -
  have n: "nth_opt (named # choice # rest) 0 = Some named"
    "nth_opt (named # choice # rest) (Suc 0) = Some choice"
    by (simp_all add: nth_opt_def)
  show ?thesis
    using assms
    by (simp add: dispatch_pvp_choice n answerCallbackQuery_def
          runCoinflipAnimationAndFinalize_persisted heap_update_gameState
          del: js_String.simps(1-3))
qed

lemma caller_credited_iff:
  assumes "named = js_String (callerId (game_state_json s))"
    and "js_String (opponent_id s) \<noteq> js_String (initiator_id s)"
  shows "(js_String (fst (decide s choice landed True)) = named) = (choice = landed)"
  using assms by (auto simp: decide_def Let_def simp del: js_String.simps)

text \<open>
  C4 (as amended). When a choice is handled with no other handler of the session running
  in between, the persisted status and winner encode whether the call equals the landed
  side. In PvB the acting player is the initiator, who wins with \<open>completed_p1_win\<close> on a
  match; otherwise 'bot' wins with \<open>completed_bot_win\<close>. In PvP the winner is the
  session's current caller (\<open>gameState.callerId\<close>) on a match and the other player
  otherwise, and the status is \<open>completed_p1_win\<close> exactly when the winner is the
  initiator. The acting player of a PvP call is only checked to be the identity named in
  the clicked button's data: the acting player wins exactly when the call matches, provided
  that named identity is the session's current caller and the two players differ. A choice
  by an identity that fails the check persists nothing.
\<close>

theorem resolution_encodes_flip:
  assumes "r < length (heap st)"
  shows
    "decide (heap st ! r) choice landed False =
       (if choice = landed then (initiator_id (heap st ! r), completed_p1_win)
        else (Str ''bot'', completed_bot_win)) \<and>
     fst (decide (heap st ! r) choice landed True) =
       (if choice = landed then callerId (game_state_json (heap st ! r))
        else if js_String (callerId (game_state_json (heap st ! r))) =
                js_String (initiator_id (heap st ! r))
             then opponent_id (heap st ! r) else initiator_id (heap st ! r)) \<and>
     snd (decide (heap st ! r) choice landed True) =
       (if js_String (fst (decide (heap st ! r) choice landed True)) =
           js_String (initiator_id (heap st ! r))
        then completed_p1_win else completed_p2_win) \<and>
     persisted (snd (dispatch io ''cf_helper_pvb_choice'' k r (choice # rest) sender st)) =
       persisted st @
         (if js_String (Num (user_id sender)) = js_String (initiator_id (heap st ! r)) \<and>
             answer_ok io \<and> reveal_edit_ok io \<and> finalize_query_ok io
          then [(session_id (heap st ! r),
                 snd (decide (heap st ! r) choice (actualFlipOutcome (random_flip io)) False),
                 (game_state_json (heap st ! r))
                   \<lparr>winner := fst (decide (heap st ! r) choice
                                     (actualFlipOutcome (random_flip io)) False)\<rparr>)]
          else []) \<and>
     persisted (snd (dispatch io ''cf_helper_pvp_choice'' k r (named # choice # rest) sender st)) =
       persisted st @
         (if js_String (Num (user_id sender)) = named \<and>
             answer_ok io \<and> reveal_edit_ok io \<and> finalize_query_ok io
          then [(session_id (heap st ! r),
                 snd (decide (heap st ! r) choice (actualFlipOutcome (random_flip io)) True),
                 (game_state_json (heap st ! r))
                   \<lparr>callerName := getPlayerDisplayReference sender,
                    winner := fst (decide (heap st ! r) choice
                                     (actualFlipOutcome (random_flip io)) True)\<rparr>)]
          else []) \<and>
     (named = js_String (callerId (game_state_json (heap st ! r))) \<and>
      js_String (opponent_id (heap st ! r)) \<noteq> js_String (initiator_id (heap st ! r)) \<longrightarrow>
        (js_String (fst (decide (heap st ! r) choice landed True)) = named) = (choice = landed))"
  by (intro conjI impI)
     (simp only: decide_pvb, simp only: decide_pvp_winner, simp only: decide_pvp_status,
      rule pvb_choice_persisted [OF assms], rule pvp_choice_persisted [OF assms],
      (erule conjE, erule caller_credited_iff, assumption))

theorem resolution_encodes_flip_witness:
  "(0::nat) < length (heap example_pvp) \<and>
   js_String (callerId (game_state_json (heap example_pvp ! 0))) = ''111'' \<and>
   js_String (initiator_id (heap example_pvp ! 0)) = ''111'' \<and>
   js_String (opponent_id (heap example_pvp ! 0)) = ''222'' \<and>
   js_String (fst (decide (heap example_pvp ! 0) ''heads'' ''heads'' True)) = ''111'' \<and>
   map (\<lambda>e. (fst e, fst (snd e), winner (snd (snd e))))
     (persisted (snd (dispatch all_resolve ''cf_helper_pvp_choice'' 7 0 [''111'', ''tails'']
                       alice example_pvp))) =
     [(7, completed_p2_win, Str ''222'')]"
proof -
  have h: "(0::nat) < length (heap example_pvp)" by code_simp
  have g1: "js_String (callerId (game_state_json (heap example_pvp ! 0))) = ''111''" by code_simp
  have g2: "js_String (initiator_id (heap example_pvp ! 0)) = ''111''" by code_simp
  have g3: "js_String (opponent_id (heap example_pvp ! 0)) = ''222''" by code_simp
  have f1: "persisted example_pvp = []" by code_simp
  have f2: "session_id (heap example_pvp ! 0) = 7" by code_simp
  have f3: "decide (heap example_pvp ! 0) ''tails'' (actualFlipOutcome (random_flip all_resolve)) True
              = (Str ''222'', completed_p2_win)" by code_simp
  have f4: "js_String (Num (user_id alice)) = ''111''" by code_simp
  have ok: "answer_ok all_resolve" "reveal_edit_ok all_resolve" "finalize_query_ok all_resolve"
    by (simp_all add: all_resolve_def)
  have call: "js_String (fst (decide (heap example_pvp ! 0) ''heads'' ''heads'' True)) = ''111''"
    using resolution_encodes_flip [OF h, where named = "''111''" and choice = "''heads''"
        and landed = "''heads''"] g1 g2 g3
    by (simp del: js_String.simps)
  have run: "map (\<lambda>e. (fst e, fst (snd e), winner (snd (snd e))))
     (persisted (snd (dispatch all_resolve ''cf_helper_pvp_choice'' 7 0 [''111'', ''tails'']
                       alice example_pvp))) =
     [(7, completed_p2_win, Str ''222'')]"
    using resolution_encodes_flip [OF h, where io = all_resolve and named = "''111''"
        and choice = "''tails''" and rest = "[]" and sender = alice and k = 7]
      f1 f2 f3 f4 ok
    by (simp del: js_String.simps)
  show ?thesis
    by (simp only: h g1 g2 g3 call run simp_thms)
qed

text \<open>
  In the PvP game of Alice (caller) and Bob, Bob sends a call that names himself. The
  handler's test passes, and the game is resolved on his call, in favour of the caller.
\<close>

lemma self_named_call_run:
  "map (\<lambda>e. (fst e, fst (snd e), winner (snd (snd e))))
     (persisted (snd (callback_query all_resolve ''cf_helper_pvp_choice:7:222:heads'' bob
                       example_pvp))) =
     [(7, completed_p1_win, Str ''111'')]"
proof -
  let ?d = "''cf_helper_pvp_choice:7:222:heads''"
  let ?st = "clearSessionTimeout 0 example_pvp"
  have a: "addressed_session example_pvp ?d = Some 0" by code_simp
  have b: "action_of ?d = ''cf_helper_pvp_choice''" by code_simp
  have p: "drop 2 (split_colon ?d) = [''222'', ''heads'']" by code_simp
  have c: "js_String (Num (user_id bob)) = ''222''" by code_simp
  have e: "persisted example_pvp = []" by code_simp
  have i: "session_id (heap example_pvp ! 0) = 7" by code_simp
  have l: "(0::nat) < length (heap ?st)" by code_simp
  have d: "decide (heap example_pvp ! 0) ''heads''
             (actualFlipOutcome (random_flip all_resolve)) True = (Str ''111'', completed_p1_win)"
    by code_simp
  have ok: "answer_ok all_resolve" "reveal_edit_ok all_resolve" "finalize_query_ok all_resolve"
    by (simp_all add: all_resolve_def)
  show ?thesis
    unfolding callback_query_present [OF a] b p
    by (simp add: pvp_choice_persisted [OF l] c e i d ok del: js_String.simps)
qed

text \<open>
  C2 as stated fails twice. After Bob's denied cancel of Alice's offer, the offer timer 0,
  which was pending, is gone, and no other timer has been armed. And an identity that the
  current step does not designate is not always denied: while Alice and Bob's game waits
  for the call of Alice, the caller (timer 1), Carol's acceptance is not answered with a
  denial, makes Carol the opponent and the caller and arms a new timer 2; and Bob's call
  naming himself resolves the game.
\<close>

theorem unauthorized_action_counterexample:
  "timers example_state 0 = Some (7, Offer) \<and>
   timers (snd (callback_query all_resolve ''cf_helper_cancel:7'' bob example_state)) 0 = None \<and>
   next_timer (snd (callback_query all_resolve ''cf_helper_cancel:7'' bob example_state)) =
     next_timer example_state \<and>
   timers example_pvp 1 = Some (7, Caller_turn) \<and>
   callerId (game_state_json (heap example_pvp ! 0)) = Str ''111'' \<and>
   opponent_id (heap example_pvp ! 0) = Str ''222'' \<and>
   user_id carol = 333 \<and> user_id bob = 222 \<and>
   opponent_id (heap (snd (callback_query opponent_calls ''cf_helper_accept_pvp:7'' carol
                             example_pvp)) ! 0) = Str ''333'' \<and>
   callerId (game_state_json
     (heap (snd (callback_query opponent_calls ''cf_helper_accept_pvp:7'' carol
                   example_pvp)) ! 0)) = Str ''333'' \<and>
   timers (snd (callback_query opponent_calls ''cf_helper_accept_pvp:7'' carol example_pvp)) 2 =
     Some (7, Caller_turn) \<and>
   filter (\<lambda>x. x = AnswerCallbackQuery (Some ''You can't accept your own challenge.'') True)
     (outs (snd (callback_query opponent_calls ''cf_helper_accept_pvp:7'' carol example_pvp))) = [] \<and>
   map (\<lambda>e. (fst e, fst (snd e), winner (snd (snd e))))
     (persisted (snd (callback_query all_resolve ''cf_helper_pvp_choice:7:222:heads'' bob
                       example_pvp))) =
     [(7, completed_p1_win, Str ''111'')]"
proof -
  have t: "timers example_state 0 = Some (7, Offer) \<and>
   timers (snd (callback_query all_resolve ''cf_helper_cancel:7'' bob example_state)) 0 = None \<and>
   next_timer (snd (callback_query all_resolve ''cf_helper_cancel:7'' bob example_state)) =
     next_timer example_state"
    by code_simp
  have p: "timers example_pvp 1 = Some (7, Caller_turn) \<and>
   callerId (game_state_json (heap example_pvp ! 0)) = Str ''111'' \<and>
   opponent_id (heap example_pvp ! 0) = Str ''222''"
    by code_simp
  have c: "opponent_id (heap (snd (callback_query opponent_calls ''cf_helper_accept_pvp:7'' carol
                             example_pvp)) ! 0) = Str ''333'' \<and>
   callerId (game_state_json
     (heap (snd (callback_query opponent_calls ''cf_helper_accept_pvp:7'' carol
                   example_pvp)) ! 0)) = Str ''333'' \<and>
   timers (snd (callback_query opponent_calls ''cf_helper_accept_pvp:7'' carol example_pvp)) 2 =
     Some (7, Caller_turn) \<and>
   filter (\<lambda>x. x = AnswerCallbackQuery (Some ''You can't accept your own challenge.'') True)
     (outs (snd (callback_query opponent_calls ''cf_helper_accept_pvp:7'' carol example_pvp))) = []"
    by code_simp
  have u: "user_id carol = 333 \<and> user_id bob = 222" by (simp add: carol_def bob_def)
  show ?thesis
    by (simp only: t p c u self_named_call_run simp_thms)
qed

subsection \<open>Pickup\<close>

lemma no_claimable_map:
  assumes "filter (claimable gid) tbl = []"
    and "\<And>row. \<not> claimable gid row \<Longrightarrow> \<not> claimable gid (f row)"
  shows "filter (claimable gid) (map f tbl) = []"
  using assms by (induction tbl) (auto split: if_splits)

lemma no_claimable_update_final:
  "fs \<noteq> pending_pickup \<Longrightarrow> filter (claimable gid) tbl = [] \<Longrightarrow>
   filter (claimable gid) (update_final sid fs g tbl) = []"
  unfolding update_final_def
  by (rule no_claimable_map) (auto simp: claimable_def)

lemma no_claimable_update_game_state_json:
  "filter (claimable gid) tbl = [] \<Longrightarrow>
   filter (claimable gid) (update_game_state_json sid g tbl) = []"
  unfolding update_game_state_json_def
  by (rule no_claimable_map) (auto simp: claimable_def)

lemma no_claimable_claim_update:
  "filter (claimable gid) (claim_update b gid tbl) = []"
  by (induction tbl) (auto simp: claim_update_def claimable_def claim_def)

lemma armSessionTimeout_fields [simp]:
  "activeHelperGames (armSessionTimeout r ctx st) = activeHelperGames st"
  "coinflip_sessions (armSessionTimeout r ctx st) = coinflip_sessions st"
  "persisted (armSessionTimeout r ctx st) = persisted st"
  "outs (armSessionTimeout r ctx st) = outs st"
  "length (heap (armSessionTimeout r ctx st)) = length (heap st)"
  "next_timer (armSessionTimeout r ctx st) = Suc (next_timer st)"
  by (simp_all add: armSessionTimeout_def Let_def)

lemma no_claimable_runOffer:
  "filter (claimable gid) (coinflip_sessions st) = [] \<Longrightarrow>
   filter (claimable gid) (coinflip_sessions (snd (runOffer io m failure r st))) = []"
  by (simp add: runOffer_def Let_def no_claimable_update_final
        no_claimable_update_game_state_json split: option.splits)

lemma no_claimable_catch:
  "filter (claimable gid) (coinflip_sessions st) = [] \<Longrightarrow>
   filter (claimable gid)
     (coinflip_sessions (snd (handleNewGameSession_catch io c g msg st))) = []"
  by (simp add: handleNewGameSession_catch_def Let_def no_claimable_update_final
        split: option.splits)

lemma handleNewGameSession_no_row:
  assumes "filter (claimable gid) (coinflip_sessions st) = []" and "database_ok io"
  shows "handleNewGameSession io gid st = (None, st)"
  using assms by (simp add: handleNewGameSession_def database_ok_def claim_returning_def)

lemma handleNewGameSession_claimed:
  assumes "database_ok io"
    and "filter (claimable gid) (coinflip_sessions st) = row # rows"
  shows "handleNewGameSession io gid st =
     (case (if truthy (opponent_id (claim (BOT_ID io) row))
            then runDirectChallenge io (length (heap st)) (pickup_setup io (claim (BOT_ID io) row) gid st)
            else runUnifiedOffer io (length (heap st)) (pickup_setup io (claim (BOT_ID io) row) gid st)) of
        (None, st2) \<Rightarrow> (None, st2)
      | (Some e, st2) \<Rightarrow> handleNewGameSession_catch io True gid ''setup'' st2)"
  using assms
  by (simp add: handleNewGameSession_def database_ok_def claim_returning_def Let_def
        pickup_setup_def)

lemma no_claimable_after_pickup:
  assumes "database_ok io"
  shows "filter (claimable gid) (coinflip_sessions (snd (handleNewGameSession io gid st))) = []"
proof (cases "filter (claimable gid) (coinflip_sessions st)")
  case Nil
  then show ?thesis using assms by (simp add: handleNewGameSession_no_row)
next
  case (Cons row rows)
  define st1 where "st1 = pickup_setup io (claim (BOT_ID io) row) gid st"
  define res where "res = (if truthy (opponent_id (claim (BOT_ID io) row))
            then runDirectChallenge io (length (heap st)) st1
            else runUnifiedOffer io (length (heap st)) st1)"
  have base: "filter (claimable gid) (coinflip_sessions st1) = []"
    by (simp add: st1_def pickup_setup_def no_claimable_claim_update)
  have offer: "filter (claimable gid) (coinflip_sessions (snd res)) = []"
    unfolding res_def runUnifiedOffer_def runDirectChallenge_def
    by (simp add: no_claimable_runOffer [OF base])
  have eq: "handleNewGameSession io gid st =
     (case res of (None, st2) \<Rightarrow> (None, st2)
      | (Some e, st2) \<Rightarrow> handleNewGameSession_catch io True gid ''setup'' st2)"
    unfolding res_def st1_def by (rule handleNewGameSession_claimed [OF assms Cons])
  obtain e st2 where r: "res = (e, st2)" by (cases res)
  with offer have st2: "filter (claimable gid) (coinflip_sessions st2) = []" by simp
  show ?thesis
    unfolding eq r using st2 by (cases e) (simp_all add: no_claimable_catch)
qed

text \<open>
  When no row with the external game id is pending, the pickup handler changes neither
  the session objects nor the Map, the table, the timers or the persisted outcomes,
  provided the statements of the transaction resolve or the game id is not a key of the
  Map; it only writes to the console when a statement is rejected.
\<close>

lemma catch_without_hit:
  assumes "get_by_game_id st g = None"
  shows "heap (snd (handleNewGameSession_catch io c g msg st)) = heap st"
    "activeHelperGames (snd (handleNewGameSession_catch io c g msg st)) = activeHelperGames st"
    "coinflip_sessions (snd (handleNewGameSession_catch io c g msg st)) = coinflip_sessions st"
    "timers (snd (handleNewGameSession_catch io c g msg st)) = timers st"
    "next_timer (snd (handleNewGameSession_catch io c g msg st)) = next_timer st"
    "persisted (snd (handleNewGameSession_catch io c g msg st)) = persisted st"
  using assms
  by (simp_all add: handleNewGameSession_catch_def get_by_game_id_def Let_def
        split: jsval.splits)

lemma pickup_without_row:
  assumes "filter (claimable gid) (coinflip_sessions st) = []"
    and "database_ok io \<or> get_by_game_id st gid = None"
  shows "heap (snd (handleNewGameSession io gid st)) = heap st \<and>
    activeHelperGames (snd (handleNewGameSession io gid st)) = activeHelperGames st \<and>
    coinflip_sessions (snd (handleNewGameSession io gid st)) = coinflip_sessions st \<and>
    timers (snd (handleNewGameSession io gid st)) = timers st \<and>
    next_timer (snd (handleNewGameSession io gid st)) = next_timer st \<and>
    persisted (snd (handleNewGameSession io gid st)) = persisted st"
proof (cases "database_ok io")
  case True
  then show ?thesis
    using assms(1) by (simp add: handleNewGameSession_no_row)
next
  case False
  with assms(2) have miss: "get_by_game_id st gid = None" by simp
  show ?thesis
    using assms(1)
    by (simp add: handleNewGameSession_def claim_returning_def catch_without_hit [OF miss])
qed

text \<open>
  With the statements resolving, a second delivery of a notification finds no pending row
  and changes nothing.
\<close>

lemma second_delivery_resolving:
  assumes "database_ok io" and "database_ok io'"
  shows "handleNewGameSession io gid (snd (handleNewGameSession io' gid st)) =
           (None, snd (handleNewGameSession io' gid st))"
  using assms by (simp add: handleNewGameSession_no_row no_claimable_after_pickup)

text \<open>
  C6, at a failing input: the notification for game 7 is delivered again after its row has
  been claimed; no row is pending, so the handler takes the no-row branch, where the
  \<open>ROLLBACK\<close> is rejected. The \<open>catch\<close> block looks the Map up under the game id 7,
  finds the live session 7, and finalizes it: the row goes from \<open>in_progress\<close> to
  \<open>completed_error\<close>, which is a durable write, and the session leaves the Map.
\<close>

theorem redelivery_reports_live_session:
  "filter (claimable (Num 7)) (coinflip_sessions example_redelivery) = [] \<and>
   map status (coinflip_sessions example_redelivery) = [in_progress] \<and>
   activeHelperGames example_redelivery 7 = Some 0 \<and>
   map (\<lambda>e. (fst e, fst (snd e)))
     (persisted (snd (handleNewGameSession rollback_fails (Num 7) example_redelivery))) =
     [(7, completed_error)] \<and>
   map status (coinflip_sessions (snd (handleNewGameSession rollback_fails (Num 7)
                                         example_redelivery))) = [completed_error] \<and>
   activeHelperGames (snd (handleNewGameSession rollback_fails (Num 7) example_redelivery)) 7 = None"
  by code_simp

text \<open>
  The \<open>catch\<close> block looks the session up under the external game id, not under its
  session id. With a textual game id it finds none and writes nothing.
\<close>

lemma catch_with_text_id:
  "persisted (snd (handleNewGameSession_catch io c (Str s) msg st)) = persisted st \<and>
   coinflip_sessions (snd (handleNewGameSession_catch io c (Str s) msg st)) = coinflip_sessions st"
  by (simp add: handleNewGameSession_catch_def get_by_game_id_def Let_def)

text \<open>
  C8, at a failing input: row 7 with game id 'g42' is picked up, the offer is sent, and the
  update of \<open>game_state_json\<close> is rejected. The session object exists and is registered,
  yet nothing is persisted: the row stays \<open>in_progress\<close>.
\<close>

theorem setup_failure_not_reported:
  "persisted (snd (handleNewGameSession (all_resolve\<lparr>gs_query_ok := False\<rparr>) (Str ''g42'')
                    example_pending)) = [] \<and>
   map status (coinflip_sessions
     (snd (handleNewGameSession (all_resolve\<lparr>gs_query_ok := False\<rparr>) (Str ''g42'')
             example_pending))) = [in_progress] \<and>
   activeHelperGames (snd (handleNewGameSession (all_resolve\<lparr>gs_query_ok := False\<rparr>)
                             (Str ''g42'') example_pending)) 7 = Some 0"
  by code_simp

subsection \<open>Fields of the session objects\<close>

lemma untouched_session_id: "untouched_by_flow session_id"
  by (simp add: untouched_by_flow_def)

lemma untouched_opponent_id: "untouched_by_flow opponent_id"
  by (simp add: untouched_by_flow_def)

lemma map_update_same:
  "f y = f (xs ! r) \<Longrightarrow> map f (xs[r := y]) = map f xs"
proof (cases "r < length xs")
  case True
  assume "f y = f (xs ! r)"
  then have "(map f xs)[r := f y] = map f xs"
    using True by (simp add: list_update_same_conv)
  then show ?thesis by (simp add: map_update)
next
  case False
  then show ?thesis by (simp add: list_update_beyond)
qed

lemma map_heap_update_gameState [simp]:
  "untouched_by_flow f \<Longrightarrow> map f (heap (update_gameState r g st)) = map f (heap st)"
  by (simp add: update_gameState_def Let_def map_update_same untouched_by_flow_def)

lemma map_heap_armSessionTimeout [simp]:
  "untouched_by_flow f \<Longrightarrow> map f (heap (armSessionTimeout r ctx st)) = map f (heap st)"
  by (simp add: armSessionTimeout_def Let_def map_update_same untouched_by_flow_def)

lemma editMessageText_heap [simp]:
  "heap (snd (editMessageText ok m st)) = heap st"
  by (simp add: editMessageText_def)

lemma map_heap_runCoinflipPvB:
  "untouched_by_flow f \<Longrightarrow> map f (heap (snd (runCoinflipPvB io r st))) = map f (heap st)"
  by (simp add: runCoinflipPvB_def Let_def editMessageText_def)

lemma map_heap_runCoinflipPvP:
  "untouched_by_flow f \<Longrightarrow> map f (heap (snd (runCoinflipPvP io r st))) = map f (heap st)"
  by (simp add: runCoinflipPvP_def Let_def editMessageText_def)

lemma map_heap_runCoinflipAnimationAndFinalize:
  "untouched_by_flow f \<Longrightarrow>
   map f (heap (snd (runCoinflipAnimationAndFinalize io r choice isPvP st))) = map f (heap st)"
  by (simp add: runCoinflipAnimationAndFinalize_def Let_def editMessageText_def
        split: option.splits prod.splits)

lemma map_heap_handleGameTimeout:
  "map f (heap (snd (handleGameTimeout io sid ctx st))) = map f (heap st)"
  by (simp add: handleGameTimeout_def Let_def editMessageText_def
        split: option.splits prod.splits timeout_context.splits)

lemma map_heap_timer_fires:
  "map f (heap (snd (timer_fires io h st))) = map f (heap st)"
  by (simp add: timer_fires_def map_heap_handleGameTimeout split: option.splits)

lemma map_heap_runOffer:
  "untouched_by_flow f \<Longrightarrow> map f (heap (snd (runOffer io m failure r st))) = map f (heap st)"
  by (simp add: runOffer_def Let_def split: option.splits)

lemma map_heap_catch:
  "map f (heap (snd (handleNewGameSession_catch io c gid msg st))) = map f (heap st)"
  by (simp add: handleNewGameSession_catch_def Let_def split: option.splits)

lemma map_heap_answered [simp]:
  "map f (heap (snd (andThen (answerCallbackQuery ok txt alert st) k))) =
     (if ok then map f (heap (snd (k (emit (AnswerCallbackQuery txt alert) st)))) else map f (heap st))"
  by (simp add: answerCallbackQuery_def)

lemma map_heap_edited [simp]:
  "map f (heap (snd (andThen (editMessageText ok m st) k))) =
     (if ok then map f (heap (snd (k (emit (EditMessageText m) st)))) else map f (heap st))"
  by (simp add: editMessageText_def)

lemma map_heap_dispatch:
  assumes "untouched_by_flow f"
  shows "map f (heap (snd (dispatch io action k r params sender st))) =
     (if action = ''cf_helper_accept_pvp'' \<and>
         js_String (Num (user_id sender)) \<noteq> js_String (initiator_id (heap st ! r))
      then map f ((heap st)[r := (heap st ! r)\<lparr>opponent_id := Str (js_String (Num (user_id sender)))\<rparr>])
      else map f (heap st))"
proof (rule action_cases [of action])
  assume "action \<notin> set known_actions"
  then show ?thesis by (simp add: dispatch_unknown known_actions_def)
next
  assume "action = ''cf_helper_cancel''"
  then show ?thesis by (simp add: dispatch_cancel del: js_String.simps)
next
  assume "action = ''cf_helper_accept_bot''"
  then show ?thesis
    by (simp add: dispatch_accept_bot map_heap_runCoinflipPvB [OF assms] del: js_String.simps)
next
  assume "action = ''cf_helper_accept_pvp''"
  then show ?thesis
    using assms
    by (simp add: dispatch_accept_pvp map_heap_runCoinflipPvP [OF assms] del: js_String.simps)
next
  assume "action = ''cf_helper_accept_direct''"
  then show ?thesis
    by (simp add: dispatch_accept_direct map_heap_runCoinflipPvP [OF assms] del: js_String.simps)
next
  assume "action = ''cf_helper_decline_direct''"
  then show ?thesis by (simp add: dispatch_decline_direct del: js_String.simps)
next
  assume "action = ''cf_helper_pvb_choice''"
  then show ?thesis
    by (simp add: dispatch_pvb_choice map_heap_runCoinflipAnimationAndFinalize [OF assms]
          del: js_String.simps)
next
  assume "action = ''cf_helper_pvp_choice''"
  then show ?thesis
    using assms
    by (simp add: dispatch_pvp_choice map_heap_runCoinflipAnimationAndFinalize [OF assms]
          del: js_String.simps)
qed

lemma map_heap_pickup:
  assumes "untouched_by_flow f"
  shows "take (length (heap st)) (map f (heap (snd (handleNewGameSession io gid st)))) =
           map f (heap st)"
proof -
  have base: "\<And>s. take (length (heap st)) (map f (heap (pickup_setup io s gid st))) = map f (heap st)"
    by (simp add: pickup_setup_def)
  have offer: "\<And>s m msg. take (length (heap st))
       (map f (heap (snd (runOffer io m msg (length (heap st)) (pickup_setup io s gid st))))) = map f (heap st)"
    by (simp add: map_heap_runOffer [OF assms] base)
  show ?thesis
  proof (cases "claim_returning (BOT_ID io) gid (coinflip_sessions st)")
    case Nil
    then show ?thesis
      by (simp add: handleNewGameSession_def map_heap_catch)
  next
    case (Cons s ss)
    define res where "res = (if truthy (opponent_id s)
                          then runDirectChallenge io (length (heap st)) (pickup_setup io s gid st)
                          else runUnifiedOffer io (length (heap st)) (pickup_setup io s gid st))"
    have kept: "take (length (heap st)) (map f (heap (snd res))) = map f (heap st)"
      unfolding res_def runUnifiedOffer_def runDirectChallenge_def by (simp add: offer)
    have eq: "handleNewGameSession io gid st =
       (if \<not> connect_ok io then handleNewGameSession_catch io False gid ''connect'' st
        else if \<not> begin_ok io then handleNewGameSession_catch io True gid ''begin'' st
        else if \<not> claim_query_ok io then handleNewGameSession_catch io True gid ''update'' st
        else if \<not> commit_ok io then handleNewGameSession_catch io True gid ''commit'' st
        else (case res of (None, st2) \<Rightarrow> (None, st2)
              | (Some e, st2) \<Rightarrow> handleNewGameSession_catch io True gid ''setup'' st2))"
      unfolding res_def using Cons
      by (simp add: handleNewGameSession_def Let_def pickup_setup_def)
    obtain e st2 where r: "res = (e, st2)" by (cases res)
    with kept have st2: "take (length (heap st)) (map f (heap st2)) = map f (heap st)" by simp
    show ?thesis
      unfolding eq r using st2 by (cases e) (simp_all add: map_heap_catch)
  qed
qed

text \<open>
  C9 (as amended). \<open>opponent_id\<close> is assigned by every accept-pvp action of a
  non-initiator on a registered session, to that sender's id, whether or not an opponent
  is already set; every other action, every timer and every pickup leaves the
  \<open>opponent_id\<close> of every existing session object as it was.
\<close>

theorem opponent_assignment:
  "map opponent_id (heap (snd (callback_query io data sender st))) =
     (case addressed_session st data of
        None \<Rightarrow> map opponent_id (heap st)
      | Some r \<Rightarrow>
          if action_of data = ''cf_helper_accept_pvp'' \<and>
             js_String (Num (user_id sender)) \<noteq> js_String (initiator_id (heap st ! r))
          then (map opponent_id (heap st))[r := Str (js_String (Num (user_id sender)))]
          else map opponent_id (heap st)) \<and>
   map opponent_id (heap (snd (timer_fires io h st))) = map opponent_id (heap st) \<and>
   take (length (heap st)) (map opponent_id (heap (snd (handleNewGameSession io gid st)))) =
     map opponent_id (heap st)"
proof -
  have a: "map opponent_id (heap (snd (callback_query io data sender st))) =
     (case addressed_session st data of
        None \<Rightarrow> map opponent_id (heap st)
      | Some r \<Rightarrow>
          if action_of data = ''cf_helper_accept_pvp'' \<and>
             js_String (Num (user_id sender)) \<noteq> js_String (initiator_id (heap st ! r))
          then (map opponent_id (heap st))[r := Str (js_String (Num (user_id sender)))]
          else map opponent_id (heap st))"
  proof (cases "addressed_session st data")
    case None
    then show ?thesis by (simp add: callback_query_absent)
  next
    case (Some r)
    then show ?thesis
      by (simp add: callback_query_present map_heap_dispatch [OF untouched_opponent_id]
            map_update del: js_String.simps)
  qed
  show ?thesis
    by (simp only: a map_heap_timer_fires map_heap_pickup [OF untouched_opponent_id] simp_thms)
qed

text \<open>
  C9 as stated fails: Bob (222) accepted Alice's offer and is the opponent; Carol's (333)
  later accept-pvp click for the same session replaces him.
\<close>

theorem opponent_reassigned_counterexample:
  "opponent_id (heap example_pvp ! 0) = Str ''222'' \<and>
   opponent_id (heap (snd (callback_query all_resolve ''cf_helper_accept_pvp:7'' carol example_pvp)) ! 0) = Str ''333''"
  by code_simp

subsection \<open>One outcome per session\<close>

lemma sound_same_skeleton:
  "sound st \<Longrightarrow> same_skeleton st st' \<Longrightarrow> sound st'"
  unfolding sound_def same_skeleton_def by simp

lemma sound_finalized:
  assumes "sound st" and "activeHelperGames st k = Some r" and "finalized k st st'"
  shows "sound st'"
proof -
  from assms(3) obtain fs g where
    reg: "activeHelperGames st' = (activeHelperGames st)(k := None)" and
    ids: "session_ids st' = session_ids st" and
    fs: "terminal fs" and
    per: "persisted st' = persisted st @ [(k, fs, g)]" and
    pend: "pending_ids (coinflip_sessions st') = filter (\<lambda>i. i \<noteq> k) (pending_ids (coinflip_sessions st))"
    unfolding finalized_def by blast
  have fresh: "k \<notin> set (map fst (persisted st))"
    using assms(1,2) unfolding sound_def by force
  show ?thesis
    using assms(1) fresh fs unfolding sound_def reg ids per pend
    by (auto simp: list_all_iff)
qed

lemma pending_ids_update_final:
  "terminal fs \<Longrightarrow>
   pending_ids (update_final k fs g tbl) = filter (\<lambda>i. i \<noteq> k) (pending_ids tbl)"
  by (induction tbl) (auto simp: pending_ids_def update_final_def terminal_def)

lemma pending_ids_update_game_state_json [simp]:
  "pending_ids (update_game_state_json k g tbl) = pending_ids tbl"
  by (induction tbl) (auto simp: pending_ids_def update_game_state_json_def)

lemma session_ids_simps [simp]:
  "session_ids (emit x st) = session_ids st"
  "session_ids (clearSessionTimeout r st) = session_ids st"
  "session_ids (armSessionTimeout r ctx st) = session_ids st"
  "session_ids (update_gameState r f st) = session_ids st"
  "session_ids (finalizeAndRecordOutcome ok sid fs g st) = session_ids st"
  "session_ids (animation_loop i rs st) = session_ids st"
  by (simp_all add: session_ids_def untouched_session_id)

lemma handleGameTimeout_step:
  assumes "activeHelperGames st k = Some r"
  shows "same_skeleton st (snd (handleGameTimeout io k ctx st)) \<or>
         finalized k st (snd (handleGameTimeout io k ctx st))"
  using assms
  by (cases ctx)
     (simp_all add: handleGameTimeout_def Let_def editMessageText_def same_skeleton_def
        finalized_def pending_ids_update_final terminal_def)

lemma runCoinflipAnimationAndFinalize_step:
  assumes "activeHelperGames st k = Some r" and "session_ids st ! r = k" and "r < length (session_ids st)"
  shows "same_skeleton st (snd (runCoinflipAnimationAndFinalize io r choice isPvP st)) \<or>
         finalized k st (snd (runCoinflipAnimationAndFinalize io r choice isPvP st))"
proof (cases choice)
  case None
  then show ?thesis
    by (simp add: runCoinflipAnimationAndFinalize_def Let_def same_skeleton_def)
next
  case (Some c)
  have t: "decide s c l p = (w, fs) \<Longrightarrow> terminal fs" for s l p w fs
    by (auto simp: decide_def Let_def terminal_def split: if_splits)
  have k: "session_id (heap st ! r) = k"
    using assms(2,3) by (simp add: session_ids_def)
  show ?thesis
    using assms Some k
    by (auto simp: runCoinflipAnimationAndFinalize_def Let_def editMessageText_def
          same_skeleton_def finalized_def pending_ids_update_final heap_update_gameState
          session_ids_def [symmetric]
          split: prod.splits dest: t)
qed

lemma session_ids_record [simp]:
  "session_ids (st\<lparr>activeHelperGames := a\<rparr>) = session_ids st"
  "session_ids (st\<lparr>coinflip_sessions := c\<rparr>) = session_ids st"
  "session_ids (st\<lparr>timers := t\<rparr>) = session_ids st"
  by (simp_all add: session_ids_def)

lemma same_skeleton_refl [simp]: "same_skeleton st st"
  by (simp add: same_skeleton_def)

lemma same_skeleton_answer [simp]:
  "same_skeleton st (snd (answerCallbackQuery ok txt alert st))"
  by (simp add: answerCallbackQuery_def same_skeleton_def)

lemma registered_id:
  "activeHelperGames st k = Some r \<Longrightarrow> session_ids st ! r = k \<Longrightarrow> r < length (session_ids st) \<Longrightarrow>
   session_id (heap st ! r) = k"
  by (simp add: session_ids_def)

lemma runCoinflipPvB_step:
  assumes "activeHelperGames st k = Some r" and "session_ids st ! r = k" and "r < length (session_ids st)"
  shows "same_skeleton st (snd (runCoinflipPvB io r st))"
  using assms registered_id [OF assms]
  by (auto simp: runCoinflipPvB_def Let_def editMessageText_def same_skeleton_def)

lemma runCoinflipPvP_step:
  "same_skeleton st (snd (runCoinflipPvP io r st))"
  by (simp add: runCoinflipPvP_def Let_def editMessageText_def same_skeleton_def)

lemma step_after_answer:
  assumes "\<And>st'. activeHelperGames st' = activeHelperGames st \<Longrightarrow> session_ids st' = session_ids st \<Longrightarrow>
             persisted st' = persisted st \<Longrightarrow> coinflip_sessions st' = coinflip_sessions st \<Longrightarrow>
             same_skeleton st' (snd (f st')) \<or> finalized k st' (snd (f st'))"
  shows "same_skeleton st (snd (andThen (answerCallbackQuery ok txt alert st) f)) \<or>
         finalized k st (snd (andThen (answerCallbackQuery ok txt alert st) f))"
proof (cases ok)
  case False
  then show ?thesis by (simp add: answerCallbackQuery_def)
next
  case True
  have "same_skeleton (emit (AnswerCallbackQuery txt alert) st) (snd (f (emit (AnswerCallbackQuery txt alert) st))) \<or>
        finalized k (emit (AnswerCallbackQuery txt alert) st) (snd (f (emit (AnswerCallbackQuery txt alert) st)))"
    by (rule assms) simp_all
  then show ?thesis
    using True by (simp add: answerCallbackQuery_def same_skeleton_def finalized_def)
qed

lemma finalize_after_edit_step:
  assumes "terminal fs"
  shows "same_skeleton st (snd (andThen (editMessageText ok m st)
            (\<lambda>st2. (None, finalizeAndRecordOutcome qok k fs (g st2) st2)))) \<or>
         finalized k st (snd (andThen (editMessageText ok m st)
            (\<lambda>st2. (None, finalizeAndRecordOutcome qok k fs (g st2) st2))))"
  using assms
  by (simp add: editMessageText_def same_skeleton_def finalized_def pending_ids_update_final)

lemma dispatch_step:
  assumes reg: "activeHelperGames st k = Some r" and id: "session_ids st ! r = k"
    and len: "r < length (session_ids st)"
  shows "same_skeleton st (snd (dispatch io action k r params sender st)) \<or>
         finalized k st (snd (dispatch io action k r params sender st))"
proof (rule action_cases [of action])
  assume "action \<notin> set known_actions"
  then show ?thesis by (simp add: dispatch_unknown)
next
  assume a: "action = ''cf_helper_cancel''"
  have t: "terminal completed_cancelled" by (simp add: terminal_def)
  let ?go = "andThen (answerCallbackQuery (answer_ok io) (Some ''Offer withdrawn.'') False st)
          (\<lambda>st1. andThen (editMessageText (edit_ok io) OfferWithdrawnMsg st1)
             (\<lambda>st2. (None, finalizeAndRecordOutcome (finalize_query_ok io) k
                              completed_cancelled (game_state_json (heap st2 ! r)) st2)))"
  have "same_skeleton st (snd ?go) \<or> finalized k st (snd ?go)"
    by (rule step_after_answer) (rule finalize_after_edit_step [OF t])
  then show ?thesis
    unfolding a dispatch_cancel by (simp del: js_String.simps)
next
  assume a: "action = ''cf_helper_accept_bot''"
  let ?go = "andThen (answerCallbackQuery (answer_ok io) None False st) (runCoinflipPvB io r)"
  have "same_skeleton st (snd ?go) \<or> finalized k st (snd ?go)"
    by (rule step_after_answer, rule disjI1, rule runCoinflipPvB_step [where k = k])
       (simp_all add: reg id len)
  then show ?thesis
    unfolding a dispatch_accept_bot by (simp del: js_String.simps)
next
  assume a: "action = ''cf_helper_accept_pvp''"
  let ?st1 = "update_gameState r (\<lambda>g. g\<lparr>opponentName := getPlayerDisplayReference sender\<rparr>)
      (st\<lparr>heap := (heap st)[r := (heap st ! r)
          \<lparr>opponent_id := Str (js_String (Num (user_id sender)))\<rparr>]\<rparr>)"
  have s1: "same_skeleton st ?st1"
    by (simp add: same_skeleton_def session_ids_def map_update_same untouched_session_id
          del: js_String.simps)
  have "same_skeleton ?st1 (snd (andThen (answerCallbackQuery (answer_ok io) None False ?st1)
           (runCoinflipPvP io r)))"
    by (cases "answer_ok io")
       (simp_all add: answerCallbackQuery_def runCoinflipPvP_def Let_def editMessageText_def
          same_skeleton_def del: js_String.simps)
  with s1 have "same_skeleton st (snd (andThen (answerCallbackQuery (answer_ok io) None False ?st1)
           (runCoinflipPvP io r)))"
    by (simp add: same_skeleton_def)
  then show ?thesis
    unfolding a dispatch_accept_pvp by (simp del: js_String.simps)
next
  assume a: "action = ''cf_helper_accept_direct''"
  let ?go = "andThen (answerCallbackQuery (answer_ok io) None False st) (runCoinflipPvP io r)"
  have "same_skeleton st (snd ?go) \<or> finalized k st (snd ?go)"
    by (rule step_after_answer, rule disjI1, rule runCoinflipPvP_step)
  then show ?thesis
    unfolding a dispatch_accept_direct by (simp del: js_String.simps)
next
  assume a: "action = ''cf_helper_decline_direct''"
  have t: "terminal completed_cancelled" by (simp add: terminal_def)
  let ?go = "andThen (answerCallbackQuery (answer_ok io) None False st)
          (\<lambda>st1. andThen (editMessageText (edit_ok io) DuelDeclinedMsg st1)
             (\<lambda>st2. (None, finalizeAndRecordOutcome (finalize_query_ok io) k
                              completed_cancelled (game_state_json (heap st2 ! r)) st2)))"
  have "same_skeleton st (snd ?go) \<or> finalized k st (snd ?go)"
    by (rule step_after_answer) (rule finalize_after_edit_step [OF t])
  then show ?thesis
    unfolding a dispatch_decline_direct by (simp del: js_String.simps)
next
  assume a: "action = ''cf_helper_pvb_choice''"
  let ?go = "andThen (answerCallbackQuery (answer_ok io) None False st)
          (runCoinflipAnimationAndFinalize io r (nth_opt params 0) False)"
  have "same_skeleton st (snd ?go) \<or> finalized k st (snd ?go)"
    by (rule step_after_answer, rule runCoinflipAnimationAndFinalize_step)
       (simp_all add: reg id len)
  then show ?thesis
    unfolding a dispatch_pvb_choice by (simp del: js_String.simps)
next
  assume a: "action = ''cf_helper_pvp_choice''"
  let ?f = "\<lambda>st1. runCoinflipAnimationAndFinalize io r (nth_opt params 1) True
                    (update_gameState r (\<lambda>g. g\<lparr>callerName := getPlayerDisplayReference sender\<rparr>) st1)"
  have inner: "same_skeleton st' (snd (?f st')) \<or> finalized k st' (snd (?f st'))"
    if "activeHelperGames st' = activeHelperGames st" "session_ids st' = session_ids st"
       "persisted st' = persisted st" "coinflip_sessions st' = coinflip_sessions st" for st'
  proof -
    let ?u = "update_gameState r (\<lambda>g. g\<lparr>callerName := getPlayerDisplayReference sender\<rparr>) st'"
    have "same_skeleton ?u (snd (runCoinflipAnimationAndFinalize io r (nth_opt params 1) True ?u)) \<or>
          finalized k ?u (snd (runCoinflipAnimationAndFinalize io r (nth_opt params 1) True ?u))"
      by (rule runCoinflipAnimationAndFinalize_step) (simp_all add: that reg id len)
    then show ?thesis
      by (simp add: same_skeleton_def finalized_def)
  qed
  have "same_skeleton st (snd (andThen (answerCallbackQuery (answer_ok io) None False st) ?f)) \<or>
        finalized k st (snd (andThen (answerCallbackQuery (answer_ok io) None False st) ?f))"
    by (rule step_after_answer) (rule inner)
  then show ?thesis
    unfolding a dispatch_pvp_choice by (simp del: js_String.simps)
qed

lemma sound_registered:
  "sound st \<Longrightarrow> activeHelperGames st k = Some r \<Longrightarrow>
   r < length (session_ids st) \<and> session_ids st ! r = k"
  by (simp add: sound_def)

lemma sound_step:
  assumes "sound st" and "activeHelperGames st k = Some r"
    and "same_skeleton st st' \<or> finalized k st st'"
  shows "sound st'"
  using assms sound_same_skeleton sound_finalized by blast

lemma callback_query_sound:
  assumes "sound st"
  shows "sound (snd (callback_query io data sender st))"
proof (cases "addressed_session st data")
  case None
  then show ?thesis
    using assms by (simp add: callback_query_absent sound_same_skeleton)
next
  case (Some r)
  then obtain k where k: "parseInt (nth_opt (split_colon data) 1) = Some k"
      and reg: "activeHelperGames st k = Some r"
    by (auto simp: addressed_session_def split: option.splits)
  let ?st1 = "clearSessionTimeout r st"
  have s1: "sound ?st1"
    using assms by (rule sound_same_skeleton) (simp add: same_skeleton_def)
  have reg1: "activeHelperGames ?st1 k = Some r" using reg by simp
  note wf = sound_registered [OF s1 reg1]
  have "same_skeleton ?st1 (snd (dispatch io (action_of data) k r (drop 2 (split_colon data)) sender ?st1)) \<or>
        finalized k ?st1 (snd (dispatch io (action_of data) k r (drop 2 (split_colon data)) sender ?st1))"
    using reg1 wf by (intro dispatch_step) simp_all
  then have "sound (snd (dispatch io (action_of data) k r (drop 2 (split_colon data)) sender ?st1))"
    by (rule sound_step [OF s1 reg1])
  then show ?thesis
    unfolding callback_query_present [OF Some] k option.sel .
qed

lemma handleGameTimeout_sound:
  assumes "sound st"
  shows "sound (snd (handleGameTimeout io k ctx st))"
proof (cases "activeHelperGames st k")
  case None
  then show ?thesis using assms by (simp add: handleGameTimeout_absent)
next
  case (Some r)
  show ?thesis
    by (rule sound_step [OF assms Some]) (rule handleGameTimeout_step [OF Some])
qed

lemma timer_fires_sound:
  assumes "sound st"
  shows "sound (snd (timer_fires io h st))"
proof (cases "timers st h")
  case None
  then show ?thesis using assms by (simp add: timer_fires_def)
next
  case (Some cb)
  obtain k ctx where cb: "cb = (k, ctx)" by (cases cb)
  have "sound (st\<lparr>timers := (timers st)(h := None)\<rparr>)"
    using assms by (rule sound_same_skeleton) (simp add: same_skeleton_def)
  then show ?thesis
    using Some cb by (simp add: timer_fires_def handleGameTimeout_sound)
qed

lemma catch_sound:
  assumes "sound st"
  shows "sound (snd (handleNewGameSession_catch io c gid msg st))"
proof (cases "c \<and> \<not> catch_rollback_ok io")
  case True
  then show ?thesis using assms by (simp add: handleNewGameSession_catch_def)
next
  case False
  let ?st1 = "emit ConsoleError st"
  have s1: "sound ?st1"
    using assms by (rule sound_same_skeleton) (simp add: same_skeleton_def)
  show ?thesis
  proof (cases "get_by_game_id ?st1 gid")
    case None
    then show ?thesis using False s1 by (auto simp: handleNewGameSession_catch_def Let_def)
  next
    case (Some r)
    then obtain n where n: "gid = Num n" and reg: "activeHelperGames ?st1 n = Some r"
      by (auto simp: get_by_game_id_def split: jsval.splits)
    have id: "session_id (heap ?st1 ! r) = n"
      using sound_registered [OF s1 reg] by (auto simp: session_ids_def)
    have "same_skeleton ?st1 (finalizeAndRecordOutcome (finalize_query_ok io) n completed_error (error_state msg) ?st1) \<or>
          finalized n ?st1 (finalizeAndRecordOutcome (finalize_query_ok io) n completed_error (error_state msg) ?st1)"
      by (simp add: same_skeleton_def finalized_def pending_ids_update_final terminal_def)
    then have "sound (finalizeAndRecordOutcome (finalize_query_ok io) n completed_error (error_state msg) ?st1)"
      by (rule sound_step [OF s1 reg])
    then show ?thesis
      using False Some id by (auto simp: handleNewGameSession_catch_def Let_def)
  qed
qed

lemma session_id_armSessionTimeout [simp]:
  "session_id (heap (armSessionTimeout r ctx st) ! r) = session_id (heap st ! r)"
  by (cases "r < length (heap st)") (simp_all add: armSessionTimeout_def Let_def list_update_beyond)

lemma runOffer_step:
  assumes "activeHelperGames st k = Some r" and "session_ids st ! r = k" and "r < length (session_ids st)"
  shows "same_skeleton st (snd (runOffer io m failure r st)) \<or>
         finalized k st (snd (runOffer io m failure r st))"
  using assms registered_id [OF assms]
  by (auto simp: runOffer_def Let_def same_skeleton_def finalized_def pending_ids_update_final
        terminal_def split: option.splits)

lemma pending_ids_claim_update:
  "set (pending_ids (claim_update b gid tbl)) \<subseteq> set (pending_ids tbl)"
  by (induction tbl) (auto simp: pending_ids_def claim_update_def claim_def)

lemma claimed_is_pending:
  "s \<in> set (claim_returning b gid tbl) \<Longrightarrow> session_id s \<in> set (pending_ids tbl)"
  by (auto simp: claim_returning_def pending_ids_def claimable_def claim_def)

lemma pickup_setup_fields:
  "activeHelperGames (pickup_setup io s gid st) =
     (activeHelperGames st)(session_id s \<mapsto> length (session_ids st))"
  "session_ids (pickup_setup io s gid st) = session_ids st @ [session_id s]"
  "persisted (pickup_setup io s gid st) = persisted st"
  "coinflip_sessions (pickup_setup io s gid st) =
     claim_update (BOT_ID io) gid (coinflip_sessions st)"
  by (simp_all add: pickup_setup_def session_ids_def)

lemma pickup_setup_sound:
  assumes "sound st" and "session_id s \<in> set (pending_ids (coinflip_sessions st))"
  shows "sound (pickup_setup io s gid st)"
proof -
  let ?reg = "(activeHelperGames st)(session_id s \<mapsto> length (session_ids st))"
  let ?ids = "session_ids st @ [session_id s]"
  have fresh: "session_id s \<notin> set (map fst (persisted st))"
    using assms unfolding sound_def by blast
  have sub: "set (pending_ids (claim_update (BOT_ID io) gid (coinflip_sessions st)))
               \<subseteq> set (pending_ids (coinflip_sessions st))"
    by (rule pending_ids_claim_update)
  have a: "r < length ?ids \<and> ?ids ! r = k" if "?reg k = Some r" for k r
  proof (cases "k = session_id s")
    case True
    with that show ?thesis by (auto simp: nth_append)
  next
    case False
    with that have "activeHelperGames st k = Some r" by simp
    then have "r < length (session_ids st) \<and> session_ids st ! r = k"
      using assms(1) by (simp add: sound_def)
    then show ?thesis by (simp add: nth_append)
  qed
  have b: "?reg k = None \<and>
           k \<notin> set (pending_ids (claim_update (BOT_ID io) gid (coinflip_sessions st)))"
    if "k \<in> set (map fst (persisted st))" for k
  proof -
    from that assms(1) have "activeHelperGames st k = None"
      and "k \<notin> set (pending_ids (coinflip_sessions st))"
      unfolding sound_def by blast+
    moreover from that fresh have "k \<noteq> session_id s" by blast
    ultimately show ?thesis using sub by auto
  qed
  show ?thesis
    unfolding sound_def pickup_setup_fields
    using a b assms(1) by (simp add: sound_def)
qed

lemma handleNewGameSession_sound:
  assumes "sound st"
  shows "sound (snd (handleNewGameSession io gid st))"
proof (cases "claim_returning (BOT_ID io) gid (coinflip_sessions st)")
  case Nil
  then show ?thesis
    using assms by (simp add: handleNewGameSession_def catch_sound)
next
  case (Cons s ss)
  let ?r = "length (heap st)"
  let ?st1 = "pickup_setup io s gid st"
  define res where "res = (if truthy (opponent_id s)
                          then runDirectChallenge io ?r ?st1 else runUnifiedOffer io ?r ?st1)"
  have "s \<in> set (claim_returning (BOT_ID io) gid (coinflip_sessions st))"
    using Cons by simp
  then have s1: "sound ?st1"
    using assms by (intro pickup_setup_sound claimed_is_pending)
  have reg: "activeHelperGames ?st1 (session_id s) = Some ?r"
    by (simp add: pickup_setup_def)
  have len: "length (heap st) = length (session_ids st)"
    by (simp add: session_ids_def)
  have wf: "session_ids ?st1 ! ?r = session_id s" "?r < length (session_ids ?st1)"
    by (simp_all add: pickup_setup_fields len)
  have "same_skeleton ?st1 (snd res) \<or> finalized (session_id s) ?st1 (snd res)"
    unfolding res_def runUnifiedOffer_def runDirectChallenge_def
    using runOffer_step [OF reg wf] by simp
  then have s2: "sound (snd res)"
    by (rule sound_step [OF s1 reg])
  have eq: "handleNewGameSession io gid st =
       (if \<not> connect_ok io then handleNewGameSession_catch io False gid ''connect'' st
        else if \<not> begin_ok io then handleNewGameSession_catch io True gid ''begin'' st
        else if \<not> claim_query_ok io then handleNewGameSession_catch io True gid ''update'' st
        else if \<not> commit_ok io then handleNewGameSession_catch io True gid ''commit'' st
        else (case res of (None, st2) \<Rightarrow> (None, st2)
              | (Some e, st2) \<Rightarrow> handleNewGameSession_catch io True gid ''setup'' st2))"
    unfolding res_def using Cons
    by (simp add: handleNewGameSession_def Let_def pickup_setup_def)
  obtain e st2 where r: "res = (e, st2)" by (cases res)
  with s2 have "sound st2" by simp
  then show ?thesis
    unfolding eq r using assms by (cases e) (simp_all add: catch_sound)
qed

lemma handle_sound: "sound st \<Longrightarrow> sound (handle e st)"
  by (cases e) (simp_all add: handleNewGameSession_sound callback_query_sound timer_fires_sound)

lemma run_sound: "sound st \<Longrightarrow> sound (run evs st)"
  unfolding run_def by (induction evs arbitrary: st) (simp_all add: handle_sound)

lemma startup_sound: "sound (startup tbl)"
  by (simp add: sound_def startup_def)

text \<open>
  C1 (as amended). When each handler runs to its end before the next event is handled,
  then over any sequence of pickups, actions and timer firings after startup the
  persisted outcomes have pairwise different session ids, and each is a terminal status:
  at most one terminal status is persisted per session.
\<close>

theorem one_outcome_per_session:
  "distinct (map fst (persisted (run evs (startup tbl)))) \<and>
   list_all (\<lambda>e. terminal (fst (snd e))) (persisted (run evs (startup tbl)))"
  using run_sound [OF startup_sound, of evs tbl] by (simp add: sound_def)

subsection \<open>Two handlers of one session in flight\<close>

text \<open>The steps of a choice handler, run without interruption, are the handler.\<close>

lemma finalize_in_two_steps:
  "finalizeAndRecordOutcome (finalize_query_ok io) sid fs g st =
     snd (resume io (Persisting sid fs g) (emit ConsoleLog st))"
  by (simp add: finalizeAndRecordOutcome_def Let_def)

lemma animation_in_steps:
  "snd (runCoinflipAnimationAndFinalize io r (nth_opt params (if isPvP then 1 else 0)) isPvP st) =
   uninterrupted 3 io
     (case nth_opt params (if isPvP then 1 else 0) of
        None \<Rightarrow> (None, clearSessionTimeout r st)
      | Some choice \<Rightarrow> (Some (Animating r choice isPvP), clearSessionTimeout r st))"
  by (simp add: runCoinflipAnimationAndFinalize_def Let_def editMessageText_def
        finalizeAndRecordOutcome_def numeral_3_eq_3
        split: option.splits prod.splits)

lemma handlers_in_steps:
  "uninterrupted 4 io (begin_callback io data sender st) = snd (callback_query io data sender st)"
proof (cases "addressed_session st data")
  case None
  then show ?thesis by (simp add: begin_callback_def numeral_eq_Suc)
next
  case (Some r)
  let ?st1 = "clearSessionTimeout r st"
  let ?params = "drop 2 (split_colon data)"
  let ?pvb = "action_of data = ''cf_helper_pvb_choice'' \<and>
              js_String (Num (user_id sender)) = js_String (initiator_id (heap ?st1 ! r))"
  let ?pvp = "action_of data = ''cf_helper_pvp_choice'' \<and>
              js_String (Num (user_id sender)) =
                js_String (case nth_opt ?params 0 of None \<Rightarrow> Undefined | Some c \<Rightarrow> Str c)"
  have four: "uninterrupted 4 io (Some t, s) = uninterrupted 3 io (resume io t s)" for t s
    by (simp add: numeral_eq_Suc)
  have none: "uninterrupted 4 io (None, s) = s" for s
    by (simp add: numeral_eq_Suc)
  consider (pvb) ?pvb | (pvp) "\<not> ?pvb" ?pvp | (other) "\<not> ?pvb" "\<not> ?pvp"
    by blast
  then show ?thesis
  proof cases
    case pvb
    then have b: "begin_callback io data sender st = (Some (Answering r ?params sender False), ?st1)"
      using Some by (simp add: begin_callback_def Let_def del: js_String.simps)
    have "uninterrupted 4 io (Some (Answering r ?params sender False), ?st1) =
       snd (andThen (answerCallbackQuery (answer_ok io) None False ?st1)
            (runCoinflipAnimationAndFinalize io r (nth_opt ?params 0) False))"
      unfolding four using animation_in_steps [of io r ?params False]
      by (simp add: answerCallbackQuery_def Let_def numeral_3_eq_3 split: option.splits)
    then show ?thesis
      unfolding b callback_query_present [OF Some] using pvb
      by (simp add: dispatch_pvb_choice del: js_String.simps)
  next
    case pvp
    then have b: "begin_callback io data sender st = (Some (Answering r ?params sender True), ?st1)"
      using Some by (auto simp add: begin_callback_def Let_def simp del: js_String.simps)
    have "uninterrupted 4 io (Some (Answering r ?params sender True), ?st1) =
       snd (andThen (answerCallbackQuery (answer_ok io) None False ?st1)
            (\<lambda>st1. runCoinflipAnimationAndFinalize io r (nth_opt ?params 1) True
                    (update_gameState r (\<lambda>g. g\<lparr>callerName := getPlayerDisplayReference sender\<rparr>) st1)))"
      unfolding four using animation_in_steps [of io r ?params True]
      by (simp add: answerCallbackQuery_def Let_def numeral_3_eq_3 split: option.splits)
    then show ?thesis
      unfolding b callback_query_present [OF Some] using pvp
      by (simp add: dispatch_pvp_choice del: js_String.simps)
  next
    case other
    then have "begin_callback io data sender st = (None, snd (callback_query io data sender st))"
      using Some by (auto simp add: begin_callback_def Let_def simp del: js_String.simps)
    then show ?thesis by (simp add: none)
  qed
qed

lemma begin_pvb_choice:
  assumes "addressed_session st data = Some r"
    and "action_of data = ''cf_helper_pvb_choice''"
    and "js_String (Num (user_id sender)) = js_String (initiator_id (heap st ! r))"
  shows "begin_callback io data sender st =
           (Some (Answering r (drop 2 (split_colon data)) sender False), clearSessionTimeout r st)"
  using assms by (simp add: begin_callback_def Let_def del: js_String.simps)

lemma addressed_session_cong:
  "activeHelperGames st' = activeHelperGames st \<Longrightarrow>
   addressed_session st' data = addressed_session st data"
  by (simp add: addressed_session_def split: option.splits)

text \<open>
  C1 as stated fails when two handlers of one session overlap: both clicks find session 7
  in the Map, both handlers flip and finalize, and two final updates are executed for
  session 7, with different statuses.
\<close>

theorem double_finalize_counterexample:
  "map (\<lambda>e. (fst e, fst (snd e))) (persisted (snd (event_loop double_click ([], example_pvb)))) =
     [(7, completed_p1_win), (7, completed_bot_win)]"
proof -
  let ?d = "''cf_helper_pvb_choice:7:heads''"
  have a: "addressed_session example_pvb ?d = Some 0" by code_simp
  have b: "action_of ?d = ''cf_helper_pvb_choice''" by code_simp
  have c: "js_String (Num (user_id alice)) = js_String (initiator_id (heap example_pvb ! 0))"
    by code_simp
  have p: "drop 2 (split_colon ?d) = [''heads'']" by code_simp
  have e: "persisted example_pvb = []" by code_simp
  have i: "session_id (heap example_pvb ! 0) = 7" by code_simp
  have l: "(0::nat) < length (heap example_pvb)" by code_simp
  have ok: "answer_ok all_resolve" "answer_ok tails_lands" "reveal_edit_ok all_resolve"
    "reveal_edit_ok tails_lands" "finalize_query_ok all_resolve" "finalize_query_ok tails_lands"
    "random_flip all_resolve" "\<not> random_flip tails_lands"
    by (simp_all add: all_resolve_def tails_lands_def)
  let ?s1 = "clearSessionTimeout 0 example_pvb"
  let ?s2 = "clearSessionTimeout 0 (emit (AnswerCallbackQuery None False) ?s1)"
  have first: "begin_callback all_resolve ?d alice example_pvb =
      (Some (Answering 0 [''heads''] alice False), ?s1)"
    using begin_pvb_choice [OF a b c] p by simp
  have a2: "addressed_session ?s2 ?d = Some 0"
    using a addressed_session_cong [of ?s2 example_pvb ?d] by simp
  have c2: "js_String (Num (user_id alice)) = js_String (initiator_id (heap ?s2 ! 0))"
    using c by simp
  have second: "begin_callback tails_lands ?d alice ?s2 =
      (Some (Answering 0 [''heads''] alice False), clearSessionTimeout 0 ?s2)"
    using begin_pvb_choice [OF a2 b c2] p by simp
  show ?thesis
    unfolding double_click_def
    by (simp add: first second nth_opt_def ok Let_def decide_pvb actualFlipOutcome_def
          COINFLIP_CHOICE_HEADS_def COINFLIP_CHOICE_TAILS_def e i l
          del: js_String.simps split: prod.splits)
qed

subsection \<open>The acting player and the caller\<close>

text \<open>
  After Bob, Carol accepts as well, and the caller is drawn again: Carol. Alice clicks the
  "Heads" button made for her when she was the caller. The check against the button's data
  passes, the flip lands heads, and the winner is the session's caller, Carol.
\<close>

lemma stale_button_run:
  "map (\<lambda>e. (fst e, fst (snd e), winner (snd (snd e))))
     (persisted (snd (callback_query all_resolve ''cf_helper_pvp_choice:7:111:heads'' alice
                       example_reaccepted))) =
     [(7, completed_p2_win, Str ''333'')]"
proof -
  let ?d = "''cf_helper_pvp_choice:7:111:heads''"
  let ?st = "clearSessionTimeout 0 example_reaccepted"
  have a: "addressed_session example_reaccepted ?d = Some 0" by code_simp
  have b: "action_of ?d = ''cf_helper_pvp_choice''" by code_simp
  have p: "drop 2 (split_colon ?d) = [''111'', ''heads'']" by code_simp
  have c: "js_String (Num (user_id alice)) = ''111''" by code_simp
  have e: "persisted example_reaccepted = []" by code_simp
  have i: "session_id (heap example_reaccepted ! 0) = 7" by code_simp
  have l: "(0::nat) < length (heap ?st)" by code_simp
  have d: "decide (heap example_reaccepted ! 0) ''heads''
             (actualFlipOutcome (random_flip all_resolve)) True = (Str ''333'', completed_p2_win)"
    by code_simp
  have ok: "answer_ok all_resolve" "reveal_edit_ok all_resolve" "finalize_query_ok all_resolve"
    by (simp_all add: all_resolve_def)
  show ?thesis
    unfolding callback_query_present [OF a] b p
    by (simp add: pvp_choice_persisted [OF l] c e i d ok del: js_String.simps)
qed

text \<open>
  Under the double click, the first handler's update is issued after the second handler
  has decided: it persists the first handler's status with the second handler's winner.
\<close>

lemma double_click_run:
  "map (\<lambda>e. (fst e, fst (snd e), winner (snd (snd e))))
     (persisted (snd (event_loop double_click ([], example_pvb)))) =
     [(7, completed_p1_win, Str ''bot''), (7, completed_bot_win, Str ''bot'')]"
proof -
  let ?d = "''cf_helper_pvb_choice:7:heads''"
  have a: "addressed_session example_pvb ?d = Some 0" by code_simp
  have b: "action_of ?d = ''cf_helper_pvb_choice''" by code_simp
  have c: "js_String (Num (user_id alice)) = js_String (initiator_id (heap example_pvb ! 0))"
    by code_simp
  have p: "drop 2 (split_colon ?d) = [''heads'']" by code_simp
  have e: "persisted example_pvb = []" by code_simp
  have i: "session_id (heap example_pvb ! 0) = 7" by code_simp
  have l: "(0::nat) < length (heap example_pvb)" by code_simp
  have ok: "answer_ok all_resolve" "answer_ok tails_lands" "reveal_edit_ok all_resolve"
    "reveal_edit_ok tails_lands" "finalize_query_ok all_resolve" "finalize_query_ok tails_lands"
    "random_flip all_resolve" "\<not> random_flip tails_lands"
    by (simp_all add: all_resolve_def tails_lands_def)
  let ?s1 = "clearSessionTimeout 0 example_pvb"
  let ?s2 = "clearSessionTimeout 0 (emit (AnswerCallbackQuery None False) ?s1)"
  have first: "begin_callback all_resolve ?d alice example_pvb =
      (Some (Answering 0 [''heads''] alice False), ?s1)"
    using begin_pvb_choice [OF a b c] p by simp
  have a2: "addressed_session ?s2 ?d = Some 0"
    using a addressed_session_cong [of ?s2 example_pvb ?d] by simp
  have c2: "js_String (Num (user_id alice)) = js_String (initiator_id (heap ?s2 ! 0))"
    using c by simp
  have second: "begin_callback tails_lands ?d alice ?s2 =
      (Some (Answering 0 [''heads''] alice False), clearSessionTimeout 0 ?s2)"
    using begin_pvb_choice [OF a2 b c2] p by simp
  show ?thesis
    unfolding double_click_def
    by (simp add: first second nth_opt_def ok Let_def decide_pvb actualFlipOutcome_def
          COINFLIP_CHOICE_HEADS_def COINFLIP_CHOICE_TAILS_def e i l heap_update_gameState
          del: js_String.simps length_greater_0_conv split: prod.splits)
qed

text \<open>
  C4 as stated fails. Handlers one after another: Alice's call "heads" equals the landed
  side, yet the persisted winner is Carol, the session's caller, with
  \<open>completed_p2_win\<close>. Handlers overlapping: the first persisted outcome of the double
  click has status \<open>completed_p1_win\<close> with winner 'bot'.
\<close>

theorem acting_player_counterexample:
  "user_id alice = 111 \<and>
   callerId (game_state_json (heap example_reaccepted ! 0)) = Str ''333'' \<and>
   actualFlipOutcome (random_flip all_resolve) = ''heads'' \<and>
   map (\<lambda>e. (fst e, fst (snd e), winner (snd (snd e))))
     (persisted (snd (callback_query all_resolve ''cf_helper_pvp_choice:7:111:heads'' alice
                       example_reaccepted))) =
     [(7, completed_p2_win, Str ''333'')] \<and>
   map (\<lambda>e. (fst e, fst (snd e), winner (snd (snd e))))
     (persisted (snd (event_loop double_click ([], example_pvb)))) =
     [(7, completed_p1_win, Str ''bot''), (7, completed_bot_win, Str ''bot'')]"
proof -
  have a: "callerId (game_state_json (heap example_reaccepted ! 0)) = Str ''333''" by code_simp
  have b: "actualFlipOutcome (random_flip all_resolve) = ''heads''" by code_simp
  have u: "user_id alice = 111" by (simp add: alice_def)
  show ?thesis
    by (simp only: a b u stale_button_run double_click_run simp_thms)
qed

subsection \<open>The earlier draft\<close>

text \<open>
  The draft's handlers behave as the final ones do in what the properties above are about:
  a session that is not in the Map is left alone (answered "no longer active" to an
  action), a denied action is answered with the same alert and leaves the timer cancelled,
  an unknown action only cancels the timer, the timeout statuses are the same for a
  session in progress, and an accept-pvp action of a non-initiator overwrites the opponent.
\<close>

lemma callback_query_draft_absent:
  "addressed_session st data = None \<Longrightarrow>
   callback_query_draft io data sender st =
     answerCallbackQuery (answer_ok io) (Some ''This game is no longer active.'') True st"
  by (simp add: callback_query_draft_def addressed_session_def Let_def split: option.splits)

lemma callback_query_draft_present:
  "addressed_session st data = Some r \<Longrightarrow>
   callback_query_draft io data sender st =
     dispatch_draft io (action_of data) (the (parseInt (nth_opt (split_colon data) 1))) r
       (drop 2 (split_colon data)) sender (clearSessionTimeout r st)"
  by (auto simp: callback_query_draft_def addressed_session_def action_of_def Let_def
           split: option.splits)

lemma draft_removed_session_is_inert:
  assumes "activeHelperGames st sessionId = None"
  shows "(parseInt (nth_opt (split_colon data) 1) = Some sessionId \<longrightarrow>
            callback_query_draft io data sender st =
              (if answer_ok io
               then (None, st\<lparr>outs := outs st @
                        [AnswerCallbackQuery (Some ''This game is no longer active.'') True]\<rparr>)
               else (Some PresenterError, st))) \<and>
         handleGameTimeout_draft io sessionId ctx st = (None, st) \<and>
         handleOfferTimeout io sessionId st = (None, st)"
  using assms
  by (simp add: callback_query_draft_absent addressed_session_def handleGameTimeout_draft_def
        handleOfferTimeout_def answerCallbackQuery_def emit_def)

lemma draft_unauthorized_action_denied:
  assumes "addressed_session st data = Some r"
    and "action_of data \<in> {''cf_helper_cancel'', ''cf_helper_accept_bot'',
                            ''cf_helper_accept_pvp'', ''cf_helper_pvp_choice''}"
    and "\<not> authorized (action_of data) (heap st ! r) (drop 2 (split_colon data))
             (js_String (Num (user_id sender)))"
  shows "callback_query_draft io data sender st =
           answerCallbackQuery (answer_ok io) (denial (action_of data)) True
             (clearSessionTimeout r st)"
proof -
  from assms(2) consider
      "action_of data = ''cf_helper_cancel''" | "action_of data = ''cf_helper_accept_bot''"
    | "action_of data = ''cf_helper_accept_pvp''" | "action_of data = ''cf_helper_pvp_choice''"
    by (elim insertE emptyE)
  then show ?thesis
    using assms(3) unfolding callback_query_draft_present [OF assms(1)]
    by cases
       (simp_all add: dispatch_draft_def denial_def authorized_def Let_def del: js_String.simps)
qed

lemma draft_unknown_action:
  assumes "addressed_session st data = Some r"
    and "action_of data \<notin> {''cf_helper_cancel'', ''cf_helper_accept_bot'',
                            ''cf_helper_accept_pvp'', ''cf_helper_pvb_choice'',
                            ''cf_helper_pvp_choice''}"
  shows "callback_query_draft io data sender st = (None, clearSessionTimeout r st)"
  using assms(2) unfolding callback_query_draft_present [OF assms(1)]
  by (simp add: dispatch_draft_def Let_def)

lemma draft_timeout_default_winner:
  assumes "activeHelperGames st sessionId = Some r" and "status (heap st ! r) = in_progress"
  shows "persisted (snd (handleGameTimeout_draft io sessionId Player_turn st)) =
           persisted st @
             (if edit_ok io \<and> finalize_query_ok io
              then [(sessionId, completed_bot_win, game_state_json (heap st ! r))] else [])"
    and "persisted (snd (handleGameTimeout_draft io sessionId Caller_turn st)) =
           persisted st @
             (if edit_ok io \<and> finalize_query_ok io
              then [(sessionId,
                     if js_String (callerId (game_state_json (heap st ! r))) =
                        js_String (initiator_id (heap st ! r))
                     then completed_p2_win else completed_p1_win,
                     game_state_json (heap st ! r))]
              else [])"
  using assms
  by (simp_all add: handleGameTimeout_draft_def Let_def editMessageText_def)

lemma draft_opponent_overwritten:
  assumes "addressed_session st data = Some r" and "r < length (heap st)"
    and "action_of data = ''cf_helper_accept_pvp''"
    and "js_String (Num (user_id sender)) \<noteq> js_String (initiator_id (heap st ! r))"
  shows "opponent_id (heap (snd (callback_query_draft io data sender st)) ! r) =
           Str (js_String (Num (user_id sender)))"
  using assms(2-) unfolding callback_query_draft_present [OF assms(1)]
  by (simp add: dispatch_draft_def Let_def del: js_String.simps)

end
